theory Spec2Isabelle
  imports Complex_Main "HOL-Library.Sublist"
begin

section \<open>Python strings\<close>

text \<open>
  The program is \<^verbatim>\<open>rewrite-all-local.py\<close>. A Python \<^verbatim>\<open>str\<close> is a sequence of code
  points; here it is a \<^typ>\<open>string\<close>, each \<^typ>\<open>char\<close> standing for the code point of
  the same number, so the strings covered are those whose code points are below 256
  (ASCII and Latin-1). \<^verbatim>\<open>len\<close> is \<^const>\<open>length\<close>. The string methods the program
  calls are written out for that range.
\<close>

definition py_isspace :: "char \<Rightarrow> bool" where
  \<comment> \<open>\<^verbatim>\<open>str.isspace\<close> on one code point, which is also what \<^verbatim>\<open>\s\<close> matches in a
      \<^verbatim>\<open>str\<close> pattern: TAB, LF, VT, FF, CR, FS, GS, RS, US, space, NEL and NBSP.\<close>
  "py_isspace c =
     (let n = (of_char c :: nat)
      in (9 \<le> n \<and> n \<le> 13) \<or> (28 \<le> n \<and> n \<le> 32) \<or> n = 133 \<or> n = 160)"

definition py_strip :: "string \<Rightarrow> string" where
  \<comment> \<open>\<^verbatim>\<open>s.strip()\<close>\<close>
  "py_strip s = rev (dropWhile py_isspace (rev (dropWhile py_isspace s)))"

definition py_lower_char :: "char \<Rightarrow> char" where
  "py_lower_char c =
     (let n = (of_char c :: nat)
      in if (65 \<le> n \<and> n \<le> 90) \<or> (192 \<le> n \<and> n \<le> 222 \<and> n \<noteq> 215)
         then char_of (n + 32) else c)"

definition py_lower :: "string \<Rightarrow> string" where
  \<comment> \<open>\<^verbatim>\<open>s.lower()\<close>\<close>
  "py_lower s = map py_lower_char s"

definition py_startswith :: "string \<Rightarrow> string \<Rightarrow> bool" where
  \<comment> \<open>\<^verbatim>\<open>s.startswith(p)\<close>\<close>
  "py_startswith s p = prefix p s"

definition py_endswith :: "string \<Rightarrow> string \<Rightarrow> bool" where
  \<comment> \<open>\<^verbatim>\<open>s.endswith(p)\<close>\<close>
  "py_endswith s p = suffix p s"

fun str_in :: "string \<Rightarrow> string \<Rightarrow> bool" where
  \<comment> \<open>\<^verbatim>\<open>p in s\<close>: \<open>p\<close> occurs in \<open>s\<close> as a contiguous run\<close>
  "str_in p [] = (p = [])"
| "str_in p (c # cs) = (prefix p (c # cs) \<or> str_in p cs)"

function py_replace :: "string \<Rightarrow> string \<Rightarrow> string \<Rightarrow> string" where
  \<comment> \<open>\<^verbatim>\<open>s.replace(old, new)\<close>: every occurrence, left to right, without overlap\<close>
  "py_replace old new s =
     (if old = [] then new @ concat (map (\<lambda>c. c # new) s)
      else if prefix old s then new @ py_replace old new (drop (length old) s)
      else (case s of [] \<Rightarrow> [] | c # cs \<Rightarrow> c # py_replace old new cs))"
  by pat_completeness auto
termination
  by (relation "measure (\<lambda>(old, new, s). length s)") (auto simp: prefix_def)

fun split_from :: "char \<Rightarrow> string \<Rightarrow> string \<Rightarrow> string list" where
  "split_from sep w [] = [w]"
| "split_from sep w (c # cs) =
     (if c = sep then w # split_from sep [] cs else split_from sep (w @ [c]) cs)"

definition py_split :: "string \<Rightarrow> char \<Rightarrow> string list" where
  \<comment> \<open>\<^verbatim>\<open>s.split(sep)\<close> for a separator of one character\<close>
  "py_split s sep = split_from sep [] s"

fun py_join :: "string \<Rightarrow> string list \<Rightarrow> string" where
  \<comment> \<open>\<^verbatim>\<open>sep.join(xs)\<close>\<close>
  "py_join sep [] = []"
| "py_join sep [x] = x"
| "py_join sep (x # y # ys) = x @ sep @ py_join sep (y # ys)"

definition digit_char :: "nat \<Rightarrow> char" where
  "digit_char d = char_of (48 + d)"

fun str_nat :: "nat \<Rightarrow> string" where
  \<comment> \<open>\<^verbatim>\<open>str(n)\<close> for an integer \<open>n \<ge> 0\<close>: its decimal digits\<close>
  "str_nat n = (if n < 10 then [digit_char n] else str_nat (n div 10) @ [digit_char (n mod 10)])"

definition str_int :: "int \<Rightarrow> string" where
  \<comment> \<open>\<^verbatim>\<open>str(i)\<close> for an integer\<close>
  "str_int i = (if i < 0 then CHR ''-'' # str_nat (nat (- i)) else str_nat (nat i))"

function re_sub_ws :: "string \<Rightarrow> string" where
  \<comment> \<open>\<^verbatim>\<open>re.sub(r"\s+", " ", text)\<close>: every maximal run of whitespace becomes one space\<close>
  "re_sub_ws [] = []"
| "re_sub_ws (c # cs) =
     (if py_isspace c then CHR '' '' # re_sub_ws (dropWhile py_isspace cs)
      else c # re_sub_ws cs)"
  by pat_completeness auto
termination
  by (relation "measure length") (auto simp: less_Suc_eq_le length_dropWhile_le)

function re_split_from :: "string \<Rightarrow> string \<Rightarrow> string list" where
  "re_split_from w [] = [w]"
| "re_split_from w (c # cs) =
     (if py_isspace c then w # re_split_from [] (dropWhile py_isspace cs)
      else re_split_from (w @ [c]) cs)"
  by pat_completeness auto
termination
  by (relation "measure (\<lambda>(w, s). length s)") (auto simp: less_Suc_eq_le length_dropWhile_le)

definition re_split_ws :: "string \<Rightarrow> string list" where
  \<comment> \<open>\<^verbatim>\<open>re.split(r"\s+", text)\<close>: the pieces between the maximal runs of whitespace,
      empty pieces at the ends included\<close>
  "re_split_ws s = re_split_from [] s"

section \<open>Text normalizer and signal phrases\<close>

definition AI_PHRASES :: "string list" where
  \<comment> \<open>Lines 18 to 43. Python joins two string literals that follow each other with no
      comma between them; the three places where the source does so are written with
      \<open>@\<close>.\<close>
  "AI_PHRASES =
    [''timeless'',
     ''must-have'',
     ''embodies'',
     ''symphony'' @
     ''indulge'',
     ''essence'',
     ''allure'',
     ''prestige'',
     ''epitomizes'',
     ''ellegance'' @
     ''unparalleled'',
     ''exquisite'',
     ''craftsmanship'' @
     ''sophisticated'',
     ''elevate your style'',
     ''ultimate'',
     ''expression'',
     ''embody'',
     ''aesthetic'',
     ''refined taste'',
     ''experience'',
     ''luxurious'',
     ''prestigious'',
     ''status'']"

definition EDITORS_NOTE_MAX_WORDS :: nat where "EDITORS_NOTE_MAX_WORDS = 50"
definition MAX_CHAR_COUNT :: nat where "MAX_CHAR_COUNT = 1200"
definition MAX_WORD_COUNT :: nat where "MAX_WORD_COUNT = 180"
definition MIN_AI_PHRASES :: nat where "MIN_AI_PHRASES = 1"

definition word_count :: "string \<Rightarrow> nat" where
  "word_count text =
     (if text = [] then 0
      else length (filter (\<lambda>w. w \<noteq> []) (re_split_ws (py_strip text))))"

definition count_ai_phrases :: "string \<Rightarrow> nat" where
  \<comment> \<open>\<^verbatim>\<open>(html or "")\<close> is \<open>html\<close> itself for a string.\<close>
  "count_ai_phrases html =
     (let s = py_lower html
      in (\<Sum>p\<leftarrow>filter (\<lambda>p. str_in p s) AI_PHRASES. 1))"


section \<open>Values and library functions\<close>

text \<open>
  A Python \<^verbatim>\<open>float\<close> is a finite number, an infinity or not-a-number. The finite ones
  are kept as rationals: every finite double is one. The double \<^verbatim>\<open>-0.0\<close> is \<open>NegZero\<close>,
  and \<open>Finite 0\<close> is \<^verbatim>\<open>0.0\<close>.
\<close>

datatype pyfloat = Finite rat | NegZero | PosInf | NegInf | NaN

text \<open>
  The values that \<^verbatim>\<open>json.loads\<close> returns and that \<^verbatim>\<open>requests\<close> serialises: \<^verbatim>\<open>None\<close>,
  booleans, integers, floats, strings, lists and dicts. A dict is the list of its items in
  insertion order, with no key twice.
\<close>

datatype json =
    JNull
  | JBool bool
  | JInt int
  | JFloat pyfloat
  | JStr string
  | JArr "json list"
  | JObj "(string \<times> json) list"

type_synonym pydict = "(string \<times> json) list"

definition dict_get :: "pydict \<Rightarrow> string \<Rightarrow> json option" where
  \<comment> \<open>\<^verbatim>\<open>d.get(k)\<close>, with \<open>None\<close> for a key that is not there (a key that holds
      \<^verbatim>\<open>None\<close> gives \<open>Some JNull\<close>)\<close>
  "dict_get d k = map_of d k"

fun dict_set :: "pydict \<Rightarrow> string \<Rightarrow> json \<Rightarrow> pydict" where
  \<comment> \<open>\<^verbatim>\<open>d[k] = v\<close>\<close>
  "dict_set [] k v = [(k, v)]"
| "dict_set ((k', v') # d) k v =
     (if k' = k then (k, v) # d else (k', v') # dict_set d k v)"

definition dict_keys :: "pydict \<Rightarrow> string list" where
  \<comment> \<open>\<^verbatim>\<open>list(d.keys())\<close>\<close>
  "dict_keys d = map fst d"

fun py_truthy :: "json \<Rightarrow> bool" where
  \<comment> \<open>the truth value Python gives a value in \<^verbatim>\<open>if v\<close>, \<^verbatim>\<open>not v\<close> and \<^verbatim>\<open>v or w\<close>\<close>
  "py_truthy JNull = False"
| "py_truthy (JBool b) = b"
| "py_truthy (JInt i) = (i \<noteq> 0)"
| "py_truthy (JFloat f) = (f \<noteq> Finite 0 \<and> f \<noteq> NegZero)"
| "py_truthy (JStr s) = (s \<noteq> [])"
| "py_truthy (JArr xs) = (xs \<noteq> [])"
| "py_truthy (JObj kvs) = (kvs \<noteq> [])"

definition str_truthy :: "string option \<Rightarrow> bool" where
  \<comment> \<open>the truth value of a value that is \<^verbatim>\<open>None\<close> or a string\<close>
  "str_truthy v = (case v of None \<Rightarrow> False | Some s \<Rightarrow> s \<noteq> [])"

definition opt_json :: "string option \<Rightarrow> json" where
  "opt_json v = (case v of None \<Rightarrow> JNull | Some s \<Rightarrow> JStr s)"

text \<open>
  The functions of other packages that the program calls are not part of the repository.
  They are parameters of the model, gathered in one record; the theorems hold for every
  such record. \<open>None\<close> stands for a raised exception.
\<close>

record pylib =
  soup_get_text :: "string \<Rightarrow> string"
    \<comment> \<open>\<^verbatim>\<open>BeautifulSoup(html, "html.parser").get_text(" ", strip=True)\<close>\<close>
  json_loads :: "string \<Rightarrow> json option"
    \<comment> \<open>\<^verbatim>\<open>json.loads(s)\<close>\<close>
  float_of_str :: "string \<Rightarrow> pyfloat option"
    \<comment> \<open>\<^verbatim>\<open>float(s)\<close> for a string\<close>
  float_of_int :: "int \<Rightarrow> pyfloat option"
    \<comment> \<open>\<^verbatim>\<open>float(i)\<close> for an integer\<close>
  float_repr :: "pyfloat \<Rightarrow> string"
    \<comment> \<open>\<^verbatim>\<open>repr(f)\<close> for a float\<close>

definition py_float :: "pylib \<Rightarrow> json \<Rightarrow> pyfloat option" where
  \<comment> \<open>\<^verbatim>\<open>float(v)\<close>: a \<^verbatim>\<open>TypeError\<close> for \<^verbatim>\<open>None\<close>, a list or a dict\<close>
  "py_float L v =
     (case v of
        JStr s \<Rightarrow> float_of_str L s
      | JInt i \<Rightarrow> float_of_int L i
      | JFloat f \<Rightarrow> Some f
      | JBool b \<Rightarrow> Some (Finite (if b then 1 else 0))
      | _ \<Rightarrow> None)"

definition py_int_of_float :: "pyfloat \<Rightarrow> int option" where
  \<comment> \<open>\<^verbatim>\<open>int(f)\<close>: rounds towards zero; an \<^verbatim>\<open>OverflowError\<close> for an infinity and a
      \<^verbatim>\<open>ValueError\<close> for not-a-number\<close>
  "py_int_of_float f =
     (case f of
        Finite q \<Rightarrow> Some (if 0 \<le> q then \<lfloor>q\<rfloor> else \<lceil>q\<rceil>)
      | NegZero \<Rightarrow> Some 0
      | _ \<Rightarrow> None)"

definition hex_digit :: "nat \<Rightarrow> char" where
  "hex_digit d = (if d < 10 then char_of (48 + d) else char_of (87 + d))"

definition py_printable :: "char \<Rightarrow> bool" where
  \<comment> \<open>\<^verbatim>\<open>str.isprintable\<close> on one code point below 256\<close>
  "py_printable c =
     (let n = (of_char c :: nat) in (32 \<le> n \<and> n < 127) \<or> (161 \<le> n \<and> n \<noteq> 173))"

definition repr_char :: "char \<Rightarrow> char \<Rightarrow> string" where
  "repr_char q c =
     (if c = q \<or> c = CHR 0x5C then [CHR 0x5C, c]
      else if c = CHR 0x09 then [CHR 0x5C, CHR ''t'']
      else if c = CHR 0x0A then [CHR 0x5C, CHR ''n'']
      else if c = CHR 0x0D then [CHR 0x5C, CHR ''r'']
      else if py_printable c then [c]
      else [CHR 0x5C, CHR ''x'', hex_digit (of_char c div 16), hex_digit (of_char c mod 16)])"

definition py_repr_str :: "string \<Rightarrow> string" where
  \<comment> \<open>\<^verbatim>\<open>repr(s)\<close> for a string: single quotes, unless the string has a single quote and
      no double quote\<close>
  "py_repr_str s =
     (let q = (if CHR 0x27 \<in> set s \<and> CHR 0x22 \<notin> set s then CHR 0x22 else CHR 0x27)
      in [q] @ concat (map (repr_char q) s) @ [q])"

fun py_repr :: "pylib \<Rightarrow> json \<Rightarrow> string" where
  \<comment> \<open>\<^verbatim>\<open>repr(v)\<close>\<close>
  "py_repr L JNull = ''None''"
| "py_repr L (JBool b) = (if b then ''True'' else ''False'')"
| "py_repr L (JInt i) = str_int i"
| "py_repr L (JFloat f) = float_repr L f"
| "py_repr L (JStr s) = py_repr_str s"
| "py_repr L (JArr xs) = ''['' @ py_join '', '' (map (py_repr L) xs) @ '']''"
| "py_repr L (JObj kvs) =
     ''{'' @ py_join '', '' (map (\<lambda>(k, v). py_repr_str k @ '': '' @ py_repr L v) kvs) @ ''}''"

definition py_str :: "pylib \<Rightarrow> json \<Rightarrow> string" where
  \<comment> \<open>\<^verbatim>\<open>str(v)\<close>\<close>
  "py_str L v = (case v of JStr s \<Rightarrow> s | _ \<Rightarrow> py_repr L v)"

definition strip_html_to_text :: "pylib \<Rightarrow> string \<Rightarrow> string" where
  "strip_html_to_text L html =
     (if html = [] then []
      else py_strip (re_sub_ws (soup_get_text L html)))"

section \<open>Product records\<close>

text \<open>
  A product is the object that \<^verbatim>\<open>PRODUCT_QUERY\<close> (lines 185 to 236) asks for. Every
  selection of the query may come back as \<^verbatim>\<open>null\<close>, which the program reads with
  \<^verbatim>\<open>.get(...)\<close> and \<^verbatim>\<open>or {}\<close>; it is \<open>None\<close> here. The field \<^verbatim>\<open>id\<close> is \<open>product_id\<close>.
\<close>

datatype metafield = Metafield (mf_value: "string option")
  \<comment> \<open>\<^verbatim>\<open>{ value }\<close>\<close>

record field =
  field_key :: "string option"
  field_value :: "string option"
  \<comment> \<open>\<^verbatim>\<open>{ key value }\<close>\<close>

datatype node = Node (node_fields: "field list option")
  \<comment> \<open>\<^verbatim>\<open>... on Metaobject { fields { key value } }\<close>\<close>

datatype connection = Connection (nodes: "node list option")
  \<comment> \<open>\<^verbatim>\<open>{ nodes { ... } }\<close>\<close>

datatype references_metafield = References (references: "connection option")
  \<comment> \<open>\<^verbatim>\<open>{ references(first: 10) { nodes { ... } } }\<close>\<close>

datatype 'a reference_metafield = Reference (reference: "'a option")
  \<comment> \<open>\<^verbatim>\<open>{ reference { ... } }\<close>\<close>

datatype size_style_node = SizeStyle (style_size_descritpion: "metafield option")

datatype construction_node = Construction (construction_description: "metafield option")

record product =
  product_id :: "string option"
  title :: "string option"
  vendor :: "string option"
  handle :: "string option"
  descriptionHtml :: "string option"
  bag_style :: "metafield option"
  bag_size :: "metafield option"
  condition :: "metafield option"
  receipt :: "metafield option"
  accessories :: "metafield option"
  stamp :: "metafield option"
  hardware :: "metafield option"
  dimensions :: "metafield option"
  hermes_colour :: "references_metafield option"
  hermes_material :: "references_metafield option"
  hermes_hardware :: "node reference_metafield option"
  size_style_description :: "size_style_node reference_metafield option"
  hermes_construction :: "construction_node reference_metafield option"

definition get_value :: "metafield option \<Rightarrow> string option" where
  \<comment> \<open>\<^verbatim>\<open>(m or {}).get("value")\<close>\<close>
  "get_value m = (case m of None \<Rightarrow> None | Some x \<Rightarrow> mf_value x)"

definition get_nodes :: "references_metafield option \<Rightarrow> node list" where
  \<comment> \<open>\<^verbatim>\<open>((m or {}).get("references") or {}).get("nodes") or []\<close>\<close>
  "get_nodes m =
     (case m of
        None \<Rightarrow> []
      | Some r \<Rightarrow>
          (case references r of
             None \<Rightarrow> []
           | Some c \<Rightarrow> (case nodes c of None \<Rightarrow> [] | Some ns \<Rightarrow> ns)))"

definition get_reference :: "'a reference_metafield option \<Rightarrow> 'a option" where
  \<comment> \<open>\<^verbatim>\<open>(m or {}).get("reference") or {}\<close>; the empty dict is \<open>None\<close>\<close>
  "get_reference m = (case m of None \<Rightarrow> None | Some r \<Rightarrow> reference r)"

definition get_fields :: "node \<Rightarrow> field list" where
  \<comment> \<open>\<^verbatim>\<open>node.get("fields") or []\<close>\<close>
  "get_fields n = (case node_fields n of None \<Rightarrow> [] | Some fs \<Rightarrow> fs)"

section \<open>Legacy-content classifier\<close>

definition should_process_product :: "pylib \<Rightarrow> product \<Rightarrow> bool \<times> string option \<times> string" where
  "should_process_product L p =
     (let bag_style_val = get_value (bag_style p)
      in if \<not> str_truthy bag_style_val
         then (False, None,
                 ''SKIPPED: Bag Style is empty (non-Herm'' @ [CHR 0xE8]
                   @ ''s handbag / manual description required)'')
         else
           let desc_html = (case descriptionHtml p of None \<Rightarrow> [] | Some d \<Rightarrow> d)
           in if desc_html = [] then (True, None, ''PROCESS: description empty'')
              else
                let char_count = length desc_html;
                    text = strip_html_to_text L desc_html;
                    wc = word_count text
                in if 0 < wc \<and> wc \<le> EDITORS_NOTE_MAX_WORDS
                   then (True, Some desc_html,
                           ''PROCESS: editor note detected ('' @ str_nat wc @ '' words)'')
                   else
                     let ai_phrase_count = count_ai_phrases desc_html;
                         is_legacy_ai = (char_count > MAX_CHAR_COUNT \<and> wc > MAX_WORD_COUNT
                                          \<and> ai_phrase_count \<ge> MIN_AI_PHRASES)
                     in if is_legacy_ai
                        then (True, None,
                                ''PROCESS: legacy AI detected (chars='' @ str_nat char_count
                                  @ '', words='' @ str_nat wc
                                  @ '', phrases='' @ str_nat ai_phrase_count @ '')'')
                        else (False, None,
                                ''SKIPPED: has description (chars='' @ str_nat char_count
                                  @ '', words='' @ str_nat wc
                                  @ '', phrases='' @ str_nat ai_phrase_count @ '')''))"

section \<open>Value normalizers\<close>

definition parse_listish_string :: "pylib \<Rightarrow> string option \<Rightarrow> string option" where
  \<comment> \<open>\<^verbatim>\<open>str(value)\<close> is \<open>value\<close> itself for a string. Control that leaves the
      \<^verbatim>\<open>try\<close> block without returning goes on to the last line, \<^verbatim>\<open>return v\<close>.\<close>
  "parse_listish_string L val =
     (case val of
        None \<Rightarrow> None
      | Some raw \<Rightarrow>
          let v = py_strip raw
          in if v = [] \<or> py_lower v = ''nan'' then None
             else if py_startswith v ''['' \<and> py_endswith v '']''
             then (case json_loads L v of
                     Some parsed \<Rightarrow>
                       (case parsed of
                          JArr (first # rest) \<Rightarrow>
                            if first \<noteq> JNull then Some (py_strip (py_str L first)) else None
                        | _ \<Rightarrow> Some v)
                   | None \<Rightarrow>
                       let v2 = py_strip
                                  (py_replace [CHR 0x5C] []
                                    (py_replace [CHR 0x22] []
                                      (py_replace '']'' [] (py_replace ''['' [] v))));
                           parts = filter (\<lambda>p. p \<noteq> []) (map py_strip (py_split v2 (CHR '','')))
                       in (case parts of [] \<Rightarrow> None | x # xs \<Rightarrow> Some x))
             else Some v)"

definition dimension_value :: "pylib \<Rightarrow> json \<Rightarrow> json" where
  \<comment> \<open>Lines 135 to 141: \<^verbatim>\<open>int(float(val))\<close>, else \<^verbatim>\<open>float(val)\<close>, else \<^verbatim>\<open>val\<close>\<close>
  "dimension_value L v =
     (case py_float L v of
        Some f \<Rightarrow> (case py_int_of_float f of Some i \<Rightarrow> JInt i | None \<Rightarrow> JFloat f)
      | None \<Rightarrow> v)"

definition dimension_unit :: "json option \<Rightarrow> string option" where
  \<comment> \<open>Lines 133 and 134. \<^verbatim>\<open>.lower()\<close> on a value that is true and not a string raises an
      \<^verbatim>\<open>AttributeError\<close>: \<open>None\<close>.\<close>
  "dimension_unit u =
     (let unit0 = (case u of None \<Rightarrow> JStr [] | Some x \<Rightarrow> if py_truthy x then x else JStr [])
      in case unit0 of
           JStr s \<Rightarrow> Some (py_replace ''centimetres'' ''cm''
                            (py_replace ''centimeters'' ''cm'' (py_lower s)))
         | _ \<Rightarrow> None)"

fun dimensions_loop :: "pylib \<Rightarrow> json list \<Rightarrow> json list \<Rightarrow> json list option" where
  \<comment> \<open>The loop of lines 129 to 142 over the rest of \<^verbatim>\<open>parsed\<close>, with \<^verbatim>\<open>out\<close> so far;
      \<open>None\<close> when an element raises.\<close>
  "dimensions_loop L [] out = Some out"
| "dimensions_loop L (d # ds) out =
     (case d of
        JObj kv \<Rightarrow>
          (let val = (case dict_get kv ''value'' of None \<Rightarrow> JNull | Some x \<Rightarrow> x)
           in case dimension_unit (dict_get kv ''unit'') of
                None \<Rightarrow> None
              | Some unit \<Rightarrow>
                  dimensions_loop L ds
                    (out @ [JObj [(''value'', dimension_value L val), (''unit'', JStr unit)]]))
      | _ \<Rightarrow> dimensions_loop L ds out)"

definition parse_dimensions_list_dimension :: "pylib \<Rightarrow> string option \<Rightarrow> json option" where
  \<comment> \<open>\<open>None\<close> is the returned \<^verbatim>\<open>None\<close>; the list of dicts is a \<open>JArr\<close> of \<open>JObj\<close>, the
      returned string a \<open>JStr\<close>.\<close>
  "parse_dimensions_list_dimension L dimensions_raw =
     (if \<not> str_truthy dimensions_raw then None
      else
        let s = py_strip (the dimensions_raw)
        in if s = [] \<or> py_lower s = ''nan'' then None
           else (case json_loads L s of
                   None \<Rightarrow> Some (JStr s)
                 | Some parsed \<Rightarrow>
                     (case parsed of
                        JArr ds \<Rightarrow>
                          (case dimensions_loop L ds [] of
                             None \<Rightarrow> Some (JStr s)
                           | Some out \<Rightarrow> if out \<noteq> [] then Some (JArr out) else Some (JStr s))
                      | _ \<Rightarrow> Some (JStr s))))"

section \<open>Specification extractor\<close>

definition colour_keys :: "string list" where
  "colour_keys = [''blue'', ''pink_purple'', ''red'', ''orange_yellow'', ''green'',
                  ''black_grey'', ''brown'', ''natural_white'']"

definition material_keys :: "string list" where
  "material_keys = [''calfskin'', ''goatskin'', ''buffalo'', ''exotic_skins'', ''canvas'',
                    ''other'']"

text \<open>
  The two loops over the referenced sub-records append to lists. The lists are the state
  of the loop: categories, codes and descriptions for colour, categories and descriptions
  for material.
\<close>

definition colour_field ::
  "field \<Rightarrow> string list \<times> string list \<times> string list
         \<Rightarrow> string list \<times> string list \<times> string list" where
  \<comment> \<open>The body of the inner loop, lines 316 to 325\<close>
  "colour_field f acc =
     (case acc of (colour_categories, colour_codes, colour_descriptions_array) \<Rightarrow>
        (case field_value f of
           None \<Rightarrow> acc
         | Some v \<Rightarrow>
             if v = [] then acc
             else if field_key f \<in> Some ` set colour_keys
             then (colour_categories @ [v], colour_codes, colour_descriptions_array)
             else if field_key f = Some ''colour_code''
             then (colour_categories, colour_codes @ [v], colour_descriptions_array)
             else if field_key f = Some ''colour_description''
             then (colour_categories, colour_codes, colour_descriptions_array @ [v])
             else acc))"

definition colour_loop :: "node list \<Rightarrow> string list \<times> string list \<times> string list" where
  \<comment> \<open>Lines 312 to 325\<close>
  "colour_loop colour_refs =
     fold (\<lambda>node. fold colour_field (get_fields node)) colour_refs ([], [], [])"

definition material_field ::
  "field \<Rightarrow> string list \<times> string list \<Rightarrow> string list \<times> string list" where
  \<comment> \<open>The body of the inner loop, lines 338 to 345\<close>
  "material_field f acc =
     (case acc of (material_categories, material_descriptions_array) \<Rightarrow>
        (case field_value f of
           None \<Rightarrow> acc
         | Some v \<Rightarrow>
             if v = [] then acc
             else if field_key f \<in> Some ` set material_keys
             then (material_categories @ [v], material_descriptions_array)
             else if field_key f = Some ''material_description''
             then (material_categories, material_descriptions_array @ [v])
             else acc))"

definition material_loop :: "node list \<Rightarrow> string list \<times> string list" where
  \<comment> \<open>Lines 335 to 345\<close>
  "material_loop material_refs =
     fold (\<lambda>node. fold material_field (get_fields node)) material_refs ([], [])"

fun fromkeys_from :: "'a list \<Rightarrow> 'a list \<Rightarrow> 'a list" where
  "fromkeys_from seen [] = seen"
| "fromkeys_from seen (x # xs) =
     (if x \<in> set seen then fromkeys_from seen xs else fromkeys_from (seen @ [x]) xs)"

definition dict_fromkeys :: "'a list \<Rightarrow> 'a list" where
  \<comment> \<open>The keys of \<^verbatim>\<open>dict.fromkeys(xs)\<close> in the dict's order: each value of \<open>xs\<close> is
      inserted in turn, and inserting a key that is there already changes nothing.\<close>
  "dict_fromkeys xs = fromkeys_from [] xs"

definition hardware_loop :: "field list \<Rightarrow> string" where
  \<comment> \<open>Lines 353 to 355, from \<^verbatim>\<open>hardware_description_value = ""\<close>\<close>
  "hardware_loop fs =
     fold (\<lambda>f hardware_description_value.
             if field_key f = Some ''hardware_description'' \<and> str_truthy (field_value f)
             then the (field_value f) else hardware_description_value) fs []"

text \<open>
  \<^verbatim>\<open>build_payload_from_product\<close> fills the dict \<^verbatim>\<open>specs\<close> statement by statement. Each
  block of statements is a function from the dict before it to the dict after it.
\<close>

definition specs_bag_style :: "pylib \<Rightarrow> product \<Rightarrow> pydict \<Rightarrow> pydict" where
  \<comment> \<open>Lines 281 to 283\<close>
  "specs_bag_style L p specs =
     (let bag_style_val = parse_listish_string L (get_value (bag_style p))
      in if str_truthy bag_style_val
         then dict_set specs ''bag_style'' (JStr (the bag_style_val)) else specs)"

definition specs_bag_size :: "pylib \<Rightarrow> product \<Rightarrow> pydict \<Rightarrow> pydict" where
  \<comment> \<open>Lines 285 to 290; an exception of \<^verbatim>\<open>int(float(bag_size_val))\<close> leaves the dict as
      it is\<close>
  "specs_bag_size L p specs =
     (let bag_size_val = get_value (bag_size p)
      in if bag_size_val \<notin> {None, Some [], Some ''nan'', Some ''NaN''}
         then (case py_float L (opt_json bag_size_val) of
                 None \<Rightarrow> specs
               | Some f \<Rightarrow>
                   (case py_int_of_float f of
                      None \<Rightarrow> specs
                    | Some i \<Rightarrow> dict_set specs ''bag_size_cm'' (JInt i)))
         else specs)"

definition specs_condition :: "pylib \<Rightarrow> product \<Rightarrow> pydict \<Rightarrow> pydict" where
  \<comment> \<open>Lines 292 to 294\<close>
  "specs_condition L p specs =
     (let condition_val = parse_listish_string L (get_value (condition p))
      in if str_truthy condition_val
         then dict_set specs ''condition'' (JStr (the condition_val)) else specs)"

definition specs_verbatim :: "product \<Rightarrow> pydict \<Rightarrow> pydict" where
  \<comment> \<open>Lines 296 to 299\<close>
  "specs_verbatim p specs =
     (let specs = dict_set specs ''stamp'' (opt_json (get_value (stamp p)));
          specs = dict_set specs ''receipt'' (opt_json (get_value (receipt p)));
          specs = dict_set specs ''accessories'' (opt_json (get_value (accessories p)))
      in dict_set specs ''hardware'' (opt_json (get_value (hardware p))))"

definition specs_dimensions :: "pylib \<Rightarrow> product \<Rightarrow> pydict \<Rightarrow> pydict" where
  \<comment> \<open>Lines 301 to 303\<close>
  "specs_dimensions L p specs =
     (let dims = parse_dimensions_list_dimension L (get_value (dimensions p))
      in case dims of None \<Rightarrow> specs | Some d \<Rightarrow> dict_set specs ''dimensions'' d)"

definition specs_colour :: "product \<Rightarrow> pydict \<Rightarrow> pydict" where
  \<comment> \<open>Lines 310 to 330\<close>
  "specs_colour p specs =
     (let colour_refs = get_nodes (hermes_colour p)
      in if colour_refs \<noteq> []
         then (case colour_loop colour_refs of
                 (colour_categories, colour_codes, colour_descriptions_array) \<Rightarrow>
                   let specs = (if colour_categories \<noteq> []
                                then dict_set specs ''hermes_colour''
                                       (JStr (py_join '' | '' (dict_fromkeys colour_categories)))
                                else specs)
                   in if colour_codes \<noteq> []
                      then dict_set specs ''hermes_colour_code''
                             (JStr (py_join '' | '' (dict_fromkeys colour_codes)))
                      else specs)
         else specs)"

definition specs_material :: "product \<Rightarrow> pydict \<Rightarrow> pydict" where
  \<comment> \<open>Lines 333 to 348\<close>
  "specs_material p specs =
     (let material_refs = get_nodes (hermes_material p)
      in if material_refs \<noteq> []
         then (case material_loop material_refs of
                 (material_categories, material_descriptions_array) \<Rightarrow>
                   if material_categories \<noteq> []
                   then dict_set specs ''hermes_material''
                          (JStr (py_join '' | '' (dict_fromkeys material_categories)))
                   else specs)
         else specs)"

definition build_specs :: "pylib \<Rightarrow> product \<Rightarrow> pydict" where
  \<comment> \<open>The dict \<^verbatim>\<open>specs\<close> when line 380 reads it, from the empty dict of line 279\<close>
  "build_specs L p =
     (let specs = [];
          specs = specs_bag_style L p specs;
          specs = specs_bag_size L p specs;
          specs = specs_condition L p specs;
          specs = specs_verbatim p specs;
          specs = specs_dimensions L p specs;
          specs = specs_colour p specs
      in specs_material p specs)"

definition build_puzzle :: "product \<Rightarrow> pydict" where
  \<comment> \<open>The dict \<^verbatim>\<open>puzzle\<close> when line 380 reads it: lines 305 to 307, the description
      lists of the two loops, and lines 350 to 378\<close>
  "build_puzzle p =
     (let colour_refs = get_nodes (hermes_colour p);
          colour_descriptions_array =
            (if colour_refs \<noteq> [] then snd (snd (colour_loop colour_refs)) else []);
          material_refs = get_nodes (hermes_material p);
          material_descriptions_array =
            (if material_refs \<noteq> [] then snd (material_loop material_refs) else []);
          hardware_description_value =
            (case get_reference (hermes_hardware p) of
               None \<Rightarrow> []
             | Some hh_ref \<Rightarrow> hardware_loop (get_fields hh_ref));
          puzzle = [];
          puzzle =
            (case get_reference (size_style_description p) of
               None \<Rightarrow> puzzle
             | Some ssd_ref \<Rightarrow>
                 let ssd_val = get_value (style_size_descritpion ssd_ref)
                 in if str_truthy ssd_val
                    then dict_set puzzle ''style_size_description'' (JStr (the ssd_val))
                    else puzzle);
          puzzle =
            (case get_reference (hermes_construction p) of
               None \<Rightarrow> puzzle
             | Some hc_ref \<Rightarrow>
                 let hc_val = get_value (construction_description hc_ref)
                 in if str_truthy hc_val
                    then dict_set puzzle ''construction_description'' (JStr (the hc_val))
                    else puzzle);
          puzzle = (if material_descriptions_array \<noteq> []
                    then dict_set puzzle ''material_descriptions''
                           (JArr (map JStr material_descriptions_array))
                    else puzzle);
          puzzle = (if colour_descriptions_array \<noteq> []
                    then dict_set puzzle ''colour_descriptions''
                           (JArr (map JStr colour_descriptions_array))
                    else puzzle)
      in if hardware_description_value \<noteq> []
         then dict_set puzzle ''hardware_description'' (JStr hardware_description_value)
         else puzzle)"

record payload =
  payload_product :: pydict
    \<comment> \<open>\<^verbatim>\<open>"product"\<close>\<close>
  specifications :: pydict
    \<comment> \<open>\<^verbatim>\<open>"structured"."specifications"\<close>\<close>
  puzzle_description :: pydict
    \<comment> \<open>\<^verbatim>\<open>"structured"."puzzle_description"\<close>\<close>
  payload_editor_note :: "string option"
    \<comment> \<open>\<^verbatim>\<open>"structured"."editor_note"\<close>, \<open>None\<close> when the key is not set\<close>

definition build_payload_from_product :: "pylib \<Rightarrow> product \<Rightarrow> string option \<Rightarrow> payload" where
  "build_payload_from_product L p existing_editor_note =
     \<lparr> payload_product =
         [(''id'', opt_json (product_id p)),
          (''title'', opt_json (title p)),
          (''vendor'', opt_json (vendor p)),
          (''handle'', opt_json (handle p))],
       specifications = build_specs L p,
       puzzle_description = build_puzzle p,
       payload_editor_note = (if str_truthy existing_editor_note then existing_editor_note else None) \<rparr>"

section \<open>A library instance\<close>

text \<open>
  To run the model on concrete inputs the library functions need values. The instance
  below follows the Python documentation on the inputs used in this theory and is used
  nowhere else; no theorem about all inputs depends on it. Its limits:
  \<^item> \<open>tagless_text\<close> is what \<^verbatim>\<open>get_text(" ", strip=True)\<close> returns for markup with a single
    text node, that is markup without \<^verbatim>\<open><\<close> and \<^verbatim>\<open>&\<close>;
  \<^item> \<open>float_parse\<close> reads a sign, digits, a fraction and an exponent, or \<^verbatim>\<open>inf\<close>,
    \<^verbatim>\<open>infinity\<close>, \<^verbatim>\<open>nan\<close>, and keeps the exact rational where Python rounds to the nearest
    double; it does not read underscores between digits;
  \<^item> \<open>json_decode\<close> reads JSON as \<^verbatim>\<open>json.loads\<close> does, except that an escape
    \<^verbatim>\<open>\uXXXX\<close> of a code point above 255 is an error, and that floats are exact rationals;
  \<^item> the float of an integer is the integer itself, where Python rounds above \<open>2^53\<close> and
    raises an \<^verbatim>\<open>OverflowError\<close> beyond the doubles;
  \<^item> \<open>plain_float_repr\<close> writes whole numbers as \<^verbatim>\<open>24.0\<close> and other finite numbers with
    up to 17 digits after the point, without the exponent form Python switches to for very
    large and very small numbers.
\<close>

definition tagless_text :: "string \<Rightarrow> string" where
  "tagless_text html = py_strip html"

definition is_digit :: "char \<Rightarrow> bool" where
  "is_digit c = (let n = (of_char c :: nat) in 48 \<le> n \<and> n \<le> 57)"

definition nat_of_digits :: "string \<Rightarrow> nat" where
  "nat_of_digits ds = fold (\<lambda>c n. 10 * n + (of_char c - 48)) ds 0"

definition scan_exponent :: "string \<Rightarrow> (int \<times> string) option" where
  \<comment> \<open>\<^verbatim>\<open>[eE][-+]?\d+\<close> at the start of the string: its value and the rest\<close>
  "scan_exponent s =
     (case s of
        [] \<Rightarrow> None
      | e # r \<Rightarrow>
          if e \<noteq> CHR ''e'' \<and> e \<noteq> CHR ''E'' then None
          else
            let neg = (r \<noteq> [] \<and> hd r = CHR ''-'');
                r1 = (if r \<noteq> [] \<and> (hd r = CHR ''-'' \<or> hd r = CHR ''+'') then tl r else r);
                ds = takeWhile is_digit r1
            in if ds = [] then None
               else Some ((if neg then - int (nat_of_digits ds) else int (nat_of_digits ds)),
                          drop (length ds) r1))"

definition decimal_value :: "string \<Rightarrow> string \<Rightarrow> int \<Rightarrow> rat" where
  \<comment> \<open>the number with integer digits \<open>ip\<close>, fraction digits \<open>fp\<close> and exponent \<open>e\<close>\<close>
  "decimal_value ip fp e =
     (let m = of_nat (nat_of_digits (ip @ fp)) / (10 ^ length fp)
      in if 0 \<le> e then m * 10 ^ nat e else m / 10 ^ nat (- e))"

definition signed_float :: "bool \<Rightarrow> rat \<Rightarrow> pyfloat" where
  \<comment> \<open>the float of a magnitude \<open>q \<ge> 0\<close> and a sign\<close>
  "signed_float neg q = (if neg then (if q = 0 then NegZero else Finite (- q)) else Finite q)"

definition float_space :: "char \<Rightarrow> bool" where
  \<comment> \<open>the whitespace that \<^verbatim>\<open>float\<close> drops around a number: that of \<^verbatim>\<open>str.strip\<close> but for
      the separators FS, GS, RS and US\<close>
  "float_space c = (py_isspace c \<and> \<not> (28 \<le> (of_char c :: nat) \<and> (of_char c :: nat) \<le> 31))"

definition float_parse :: "string \<Rightarrow> pyfloat option" where
  "float_parse raw =
     (let s = rev (dropWhile float_space (rev (dropWhile float_space raw)));
          neg = (s \<noteq> [] \<and> hd s = CHR ''-'');
          s1 = (if s \<noteq> [] \<and> (hd s = CHR ''-'' \<or> hd s = CHR ''+'') then tl s else s);
          w = py_lower s1
      in if w = ''inf'' \<or> w = ''infinity'' then Some (if neg then NegInf else PosInf)
         else if w = ''nan'' then Some NaN
         else
           let ip = takeWhile is_digit s1;
               r1 = drop (length ip) s1;
               fp = (if r1 \<noteq> [] \<and> hd r1 = CHR ''.'' then takeWhile is_digit (tl r1) else []);
               r2 = (if r1 \<noteq> [] \<and> hd r1 = CHR ''.'' then drop (length fp) (tl r1) else r1)
           in if ip = [] \<and> fp = [] then None
              else (case scan_exponent r2 of
                      None \<Rightarrow>
                        if r2 = []
                        then Some (signed_float neg (decimal_value ip fp 0))
                        else None
                    | Some (e, r3) \<Rightarrow>
                        if r3 = []
                        then Some (signed_float neg (decimal_value ip fp e))
                        else None))"

fun fraction_digits :: "nat \<Rightarrow> rat \<Rightarrow> string" where
  \<comment> \<open>at most \<open>n\<close> decimal digits of a number in \<open>[0, 1)\<close>, ending where it is used up\<close>
  "fraction_digits 0 q = []"
| "fraction_digits (Suc n) q =
     (if q = 0 then []
      else digit_char (nat \<lfloor>q * 10\<rfloor>) # fraction_digits n (q * 10 - of_int \<lfloor>q * 10\<rfloor>))"

definition plain_float_repr :: "pyfloat \<Rightarrow> string" where
  "plain_float_repr f =
     (case f of
        PosInf \<Rightarrow> ''inf''
      | NegInf \<Rightarrow> ''-inf''
      | NegZero \<Rightarrow> ''-0.0''
      | NaN \<Rightarrow> ''nan''
      | Finite q \<Rightarrow>
          let a = \<bar>q\<bar>;
              whole = str_nat (nat \<lfloor>a\<rfloor>);
              frac = fraction_digits 17 (a - of_int \<lfloor>a\<rfloor>)
          in (if q < 0 then ''-'' else []) @ whole @ ''.'' @ (if frac = [] then ''0'' else frac))"

definition json_ws :: "char \<Rightarrow> bool" where
  "json_ws c = (c = CHR '' '' \<or> c = CHR 0x09 \<or> c = CHR 0x0A \<or> c = CHR 0x0D)"

definition skip_ws :: "string \<Rightarrow> string" where
  "skip_ws s = dropWhile json_ws s"

definition hex_value :: "char \<Rightarrow> nat option" where
  "hex_value c =
     (let n = (of_char c :: nat)
      in if 48 \<le> n \<and> n \<le> 57 then Some (n - 48)
         else if 65 \<le> n \<and> n \<le> 70 then Some (n - 55)
         else if 97 \<le> n \<and> n \<le> 102 then Some (n - 87)
         else None)"

definition unicode_escape :: "char \<Rightarrow> char \<Rightarrow> char \<Rightarrow> char \<Rightarrow> char option" where
  "unicode_escape a b c d =
     (case (hex_value a, hex_value b, hex_value c, hex_value d) of
        (Some w, Some x, Some y, Some z) \<Rightarrow>
          if w = 0 \<and> x = 0 then Some (char_of (16 * y + z)) else None
      | _ \<Rightarrow> None)"

definition simple_escape :: "char \<Rightarrow> char option" where
  "simple_escape e =
     (if e = CHR 0x22 \<or> e = CHR 0x5C \<or> e = CHR ''/'' then Some e
      else if e = CHR ''b'' then Some (CHR 0x08)
      else if e = CHR ''f'' then Some (CHR 0x0C)
      else if e = CHR ''n'' then Some (CHR 0x0A)
      else if e = CHR ''r'' then Some (CHR 0x0D)
      else if e = CHR ''t'' then Some (CHR 0x09)
      else None)"

fun scan_string :: "string \<Rightarrow> string \<Rightarrow> (string \<times> string) option" where
  \<comment> \<open>the rest of a JSON string after its opening quote: the decoded text so far, then the
      input; gives the text and what follows the closing quote\<close>
  "scan_string acc [] = None"
| "scan_string acc (c # cs) =
     (if c = CHR 0x22 then Some (acc, cs)
      else if c = CHR 0x5C then
        (case cs of
           [] \<Rightarrow> None
         | e # r \<Rightarrow>
             if e = CHR ''u'' then
               (case r of
                  h1 # h2 # h3 # h4 # r' \<Rightarrow>
                    (case unicode_escape h1 h2 h3 h4 of
                       None \<Rightarrow> None
                     | Some x \<Rightarrow> scan_string (acc @ [x]) r')
                | _ \<Rightarrow> None)
             else (case simple_escape e of
                     None \<Rightarrow> None
                   | Some x \<Rightarrow> scan_string (acc @ [x]) r))
      else if (of_char c :: nat) < 32 then None
      else scan_string (acc @ [c]) cs)"

definition scan_number :: "string \<Rightarrow> (json \<times> string) option" where
  \<comment> \<open>\<^verbatim>\<open>(-?(?:0|[1-9]\d*))(\.\d+)?([eE][-+]?\d+)?\<close> at the start of the string\<close>
  "scan_number s =
     (let neg = (s \<noteq> [] \<and> hd s = CHR ''-'');
          s1 = (if neg then tl s else s);
          ds = takeWhile is_digit s1
      in if ds = [] then None
         else
           let ip = (if hd ds = CHR ''0'' then ''0'' else ds);
               r1 = drop (length ip) s1;
               fp = (if r1 \<noteq> [] \<and> hd r1 = CHR ''.'' then takeWhile is_digit (tl r1) else []);
               r2 = (if fp = [] then r1 else drop (length fp) (tl r1));
               sgn = (if neg then -1 else 1)
           in (case scan_exponent r2 of
                 None \<Rightarrow>
                   if fp = [] then Some (JInt (sgn * int (nat_of_digits ip)), r2)
                   else Some (JFloat (signed_float neg (decimal_value ip fp 0)), r2)
               | Some (e, r3) \<Rightarrow>
                   Some (JFloat (signed_float neg (decimal_value ip fp e)), r3)))"

fun parse_value :: "nat \<Rightarrow> string \<Rightarrow> (json \<times> string) option"
  and parse_array :: "nat \<Rightarrow> json list \<Rightarrow> string \<Rightarrow> (json \<times> string) option"
  and parse_object :: "nat \<Rightarrow> pydict \<Rightarrow> string \<Rightarrow> (json \<times> string) option" where
  \<comment> \<open>One JSON value at the start of the string, and the rest. \<open>parse_array\<close> and
      \<open>parse_object\<close> start at an element and at a key, with the elements and items read
      so far. The first argument bounds the number of nested calls.\<close>
  "parse_value 0 s = None"
| "parse_value (Suc n) s =
     (case s of
        [] \<Rightarrow> None
      | c # cs \<Rightarrow>
          if c = CHR 0x22 then
            (case scan_string [] cs of None \<Rightarrow> None | Some (str, r) \<Rightarrow> Some (JStr str, r))
          else if c = CHR ''{'' then
            (case skip_ws cs of
               [] \<Rightarrow> None
             | d # ds \<Rightarrow> if d = CHR ''}'' then Some (JObj [], ds) else parse_object n [] (d # ds))
          else if c = CHR ''['' then
            (case skip_ws cs of
               [] \<Rightarrow> None
             | d # ds \<Rightarrow> if d = CHR '']'' then Some (JArr [], ds) else parse_array n [] (d # ds))
          else if prefix ''null'' s then Some (JNull, drop 4 s)
          else if prefix ''true'' s then Some (JBool True, drop 4 s)
          else if prefix ''false'' s then Some (JBool False, drop 5 s)
          else if prefix ''NaN'' s then Some (JFloat NaN, drop 3 s)
          else if prefix ''Infinity'' s then Some (JFloat PosInf, drop 8 s)
          else if prefix ''-Infinity'' s then Some (JFloat NegInf, drop 9 s)
          else scan_number s)"
| "parse_array 0 acc s = None"
| "parse_array (Suc n) acc s =
     (case parse_value n s of
        None \<Rightarrow> None
      | Some (v, r) \<Rightarrow>
          (case skip_ws r of
             [] \<Rightarrow> None
           | d # ds \<Rightarrow>
               if d = CHR '']'' then Some (JArr (acc @ [v]), ds)
               else if d = CHR '','' then parse_array n (acc @ [v]) (skip_ws ds)
               else None))"
| "parse_object 0 acc s = None"
| "parse_object (Suc n) acc s =
     (case s of
        [] \<Rightarrow> None
      | c # cs \<Rightarrow>
          if c \<noteq> CHR 0x22 then None
          else
            (case scan_string [] cs of
               None \<Rightarrow> None
             | Some (k, r) \<Rightarrow>
                 (case skip_ws r of
                    [] \<Rightarrow> None
                  | d # ds \<Rightarrow>
                      if d \<noteq> CHR '':'' then None
                      else
                        (case parse_value n (skip_ws ds) of
                           None \<Rightarrow> None
                         | Some (v, r2) \<Rightarrow>
                             (case skip_ws r2 of
                                [] \<Rightarrow> None
                              | e # es \<Rightarrow>
                                  if e = CHR ''}'' then Some (JObj (dict_set acc k v), es)
                                  else if e = CHR '','' then
                                    parse_object n (dict_set acc k v) (skip_ws es)
                                  else None)))))"

definition json_decode :: "string \<Rightarrow> json option" where
  "json_decode s =
     (case parse_value (Suc (length s)) (skip_ws s) of
        None \<Rightarrow> None
      | Some (v, r) \<Rightarrow> if skip_ws r = [] then Some v else None)"

definition python :: pylib where
  "python =
     \<lparr> soup_get_text = tagless_text,
       json_loads = json_decode,
       float_of_str = float_parse,
       float_of_int = (\<lambda>i. Some (Finite (of_int i))),
       float_repr = plain_float_repr \<rparr>"

section \<open>The run over the rows\<close>

text \<open>
  \<^verbatim>\<open>main\<close> from line 463 on: the loop over the rows of the export and the last write. The
  data frame \<^verbatim>\<open>df\<close> is the list of its rows, each with the cell of the \<^verbatim>\<open>ID\<close> column, of
  the column that is written and of the status column (three different columns, as with the
  default arguments). What the program does to the outside, in order, is the list of
  \<open>events\<close>: a query to the shop, a request to the webhook, a write of the export. The
  answers of the shop and of the webhook are functions of the \<open>world\<close>. An exception is
  a value; one raised while an \<^verbatim>\<open>except\<close> block handles another holds that other as its
  context. An assignment \<^verbatim>\<open>df.at[idx, column] = v\<close> can raise: pandas 3 refuses a value that
  the dtype of the column cannot hold (a string for a column of floats, which is what an
  all-empty column of the export is read as), where pandas 2 widens the column. Whether a
  column refuses a value is a function of the world too; neither version changes the
  dtype on a refusal, so it is the same function during the whole run. Messages to
  \<^verbatim>\<open>stderr\<close> and \<^verbatim>\<open>time.sleep\<close> are left out, and a write to an output path of a supported
  type succeeds.
\<close>

datatype exc = Exc (exc_class: string) (exc_str: string) (exc_context: "exc option")


record row =
  row_id :: json
  row_body :: json
  row_status :: json

datatype event = Query string | Post payload | Write "row list"

record run_state =
  df :: "row list"
  generated_count :: nat
  events :: "event list"

record http_response =
  status_code :: int
  response_text :: string
  response_json :: "exc + json"
    \<comment> \<open>\<^verbatim>\<open>resp.json()\<close>, which raises when the body is not JSON\<close>

datatype column = WriteColumn | StatusColumn

record world =
  shop_product :: "string \<Rightarrow> exc + product option"
    \<comment> \<open>lines 476 and 477 for a product id: \<^verbatim>\<open>shopify_graphql\<close> raises, or the answer holds
        the product \<^verbatim>\<open>p\<close>, or none\<close>
  webhook_post :: "payload \<Rightarrow> exc + http_response"
    \<comment> \<open>\<^verbatim>\<open>requests.post\<close> to the webhook with the payload as JSON\<close>
  cell_refused :: "column \<Rightarrow> json \<Rightarrow> exc option"
    \<comment> \<open>the exception that \<^verbatim>\<open>df.at[idx, column] = v\<close> raises, \<open>None\<close> when the value is
        stored\<close>

record args =
  start_row :: nat
  limit :: "int option"
  save_every :: int
  out_path :: string

definition normalize_product_id :: "pylib \<Rightarrow> json \<Rightarrow> string option" where
  \<comment> \<open>\<^verbatim>\<open>re.sub(r"\.0$", "", s)\<close> drops a final \<^verbatim>\<open>.0\<close>: \<open>s\<close> is stripped, so \<^verbatim>\<open>$\<close> is its end.
      \<^verbatim>\<open>\d\<close> matches the digits 0 to 9 among the code points below 256.\<close>
  "normalize_product_id L raw_id =
     (if raw_id = JNull then None
      else
        let s = py_strip (py_str L raw_id)
        in if s = [] \<or> py_lower s = ''nan'' then None
           else if py_startswith s ''gid://'' then Some s
           else
             let s2 = (if py_endswith s ''.0'' then take (length s - 2) s else s)
             in if s2 \<noteq> [] \<and> list_all is_digit s2
                then Some (''gid://shopify/Product/'' @ s2)
                else Some s)"

definition call_webhook :: "world \<Rightarrow> payload \<Rightarrow> exc + pydict" where
  "call_webhook W pl =
     (case webhook_post W pl of
        Inl e \<Rightarrow> Inl e
      | Inr resp \<Rightarrow>
          if status_code resp \<noteq> 200
          then Inl (Exc ''RuntimeError''
                      (''Webhook HTTP '' @ str_int (status_code resp) @ '': ''
                         @ take 500 (response_text resp)) None)
          else (case response_json resp of
                  Inl e \<Rightarrow> Inl e
                | Inr data \<Rightarrow>
                    (case data of
                       JObj d \<Rightarrow> Inr d
                     | _ \<Rightarrow> Inl (Exc ''RuntimeError'' ''Webhook returned non-object JSON.'' None))))"

definition supported_path :: "string \<Rightarrow> bool" where
  "supported_path path =
     (py_endswith (py_lower path) ''.csv'' \<or> py_endswith (py_lower path) ''.xlsx''
        \<or> py_endswith (py_lower path) ''.xls'')"

definition write_export :: "run_state \<Rightarrow> string \<Rightarrow> exc + run_state" where
  "write_export st path =
     (if supported_path path then Inr (st\<lparr>events := events st @ [Write (df st)]\<rparr>)
      else Inl (Exc ''ValueError'' ''Unsupported output type. Use .csv or .xlsx'' None))"

definition set_status :: "world \<Rightarrow> run_state \<Rightarrow> nat \<Rightarrow> string \<Rightarrow> exc + run_state" where
  \<comment> \<open>\<^verbatim>\<open>df.at[idx, args.status_column] = s\<close>\<close>
  "set_status W st idx s =
     (case cell_refused W StatusColumn (JStr s) of
        Some e \<Rightarrow> Inl e
      | None \<Rightarrow> Inr (st\<lparr>df := (df st)[idx := (df st ! idx)\<lparr>row_status := JStr s\<rparr>]\<rparr>))"

definition set_body :: "world \<Rightarrow> run_state \<Rightarrow> nat \<Rightarrow> json \<Rightarrow> exc + run_state" where
  \<comment> \<open>\<^verbatim>\<open>df.at[idx, args.write_column] = v\<close>\<close>
  "set_body W st idx v =
     (case cell_refused W WriteColumn v of
        Some e \<Rightarrow> Inl e
      | None \<Rightarrow> Inr (st\<lparr>df := (df st)[idx := (df st ! idx)\<lparr>row_body := v\<rparr>]\<rparr>))"

definition raised_in :: "run_state \<Rightarrow> exc + run_state \<Rightarrow> (exc \<times> run_state) + run_state" where
  \<comment> \<open>a statement that raises leaves the state it started in\<close>
  "raised_in st r = (case r of Inl e \<Rightarrow> Inl (e, st) | Inr st' \<Rightarrow> Inr st')"

definition and_then ::
  "(exc \<times> run_state) + run_state \<Rightarrow> (run_state \<Rightarrow> (exc \<times> run_state) + run_state)
     \<Rightarrow> (exc \<times> run_state) + run_state" where
  \<comment> \<open>the statements that follow run when the one before did not raise\<close>
  "and_then r f = (case r of Inl x \<Rightarrow> Inl x | Inr st \<Rightarrow> f st)"

definition missing_html_message :: "pylib \<Rightarrow> pydict \<Rightarrow> string" where
  \<comment> \<open>the message of line 495\<close>
  "missing_html_message L resp =
     ''Webhook missing description_html (keys=''
       @ py_repr L (JArr (map JStr (dict_keys resp))) @ '')''"

definition try_row ::
  "pylib \<Rightarrow> world \<Rightarrow> args \<Rightarrow> nat \<Rightarrow> string \<Rightarrow> run_state \<Rightarrow> (exc \<times> run_state) + run_state" where
  \<comment> \<open>The \<^verbatim>\<open>try\<close> block, lines 476 to 507, for row \<open>idx\<close>. \<open>Inl\<close> is a raised exception
      with the state it leaves; \<open>Inr\<close> is the state at a \<^verbatim>\<open>continue\<close> or at the end of the
      block.\<close>
  "try_row L W A idx product_gid st =
     (let st = st\<lparr>events := events st @ [Query product_gid]\<rparr>
      in case shop_product W product_gid of
           Inl e \<Rightarrow> Inl (e, st)
         | Inr None \<Rightarrow> raised_in st (set_status W st idx ''SKIPPED: product not found'')
         | Inr (Some p) \<Rightarrow>
             (case should_process_product L p of
                (should_process, editor_note, reason) \<Rightarrow>
                  if \<not> should_process then raised_in st (set_status W st idx reason)
                  else
                    let pl = build_payload_from_product L p editor_note;
                        st = st\<lparr>events := events st @ [Post pl]\<rparr>
                    in (case call_webhook W pl of
                          Inl e \<Rightarrow> Inl (e, st)
                        | Inr resp \<Rightarrow>
                            let generated_html =
                                  (case dict_get resp ''description_html'' of
                                     None \<Rightarrow> JNull | Some h \<Rightarrow> h)
                            in if \<not> py_truthy generated_html
                               then Inl (Exc ''RuntimeError'' (missing_html_message L resp) None,
                                         st)
                               else
                                 and_then (raised_in st (set_body W st idx generated_html))
                                   (\<lambda>st.
                                 and_then (raised_in st (set_status W st idx ''GENERATED''))
                                   (\<lambda>st.
                                 let st = st\<lparr>generated_count := generated_count st + 1\<rparr>
                                 in if save_every A > 0
                                       \<and> int (generated_count st) mod save_every A = 0
                                    then raised_in st (write_export st (out_path A))
                                    else Inr st)))))"

definition in_handler :: "exc \<Rightarrow> exc \<Rightarrow> exc" where
  \<comment> \<open>an exception raised while the handler of \<open>ex\<close> runs gets \<open>ex\<close> as its context\<close>
  "in_handler ex e = (case e of Exc c m ctx \<Rightarrow> Exc c m (Some ex))"

definition process_row ::
  "pylib \<Rightarrow> world \<Rightarrow> args \<Rightarrow> nat \<Rightarrow> string \<Rightarrow> run_state \<Rightarrow> (exc \<times> run_state) + run_state" where
  \<comment> \<open>The \<^verbatim>\<open>try\<close> statement, lines 475 to 512: the handler writes the status and the
      export, then raises the exception again. When the status or the write raises, that
      exception leaves the handler, with the handled one as context.\<close>
  "process_row L W A idx product_gid st =
     (case try_row L W A idx product_gid st of
        Inr st' \<Rightarrow> Inr st'
      | Inl (ex, st1) \<Rightarrow>
          (case set_status W st1 idx (''FAILED: '' @ exc_str ex) of
             Inl e \<Rightarrow> Inl (in_handler ex e, st1)
           | Inr st2 \<Rightarrow>
               (case write_export st2 (out_path A) of
                  Inl e \<Rightarrow> Inl (in_handler ex e, st2)
                | Inr st3 \<Rightarrow> Inl (ex, st3))))"

fun main_rows ::
  "pylib \<Rightarrow> world \<Rightarrow> args \<Rightarrow> nat list \<Rightarrow> run_state \<Rightarrow> (exc \<times> run_state) + run_state" where
  \<comment> \<open>The \<^verbatim>\<open>for\<close> loop, lines 466 to 512, over the indices that are left\<close>
  "main_rows L W A [] st = Inr st"
| "main_rows L W A (idx # rest) st =
     (if (case limit A of None \<Rightarrow> False | Some l \<Rightarrow> int idx - int (start_row A) \<ge> l)
      then Inr st
      else
        let product_gid = normalize_product_id L (row_id (df st ! idx))
        in if \<not> str_truthy product_gid
           then (case set_status W st idx ''SKIPPED: invalid ID'' of
                   Inl e \<Rightarrow> Inl (e, st)
                 | Inr st' \<Rightarrow> main_rows L W A rest st')
           else (case process_row L W A idx (the product_gid) st of
                   Inl x \<Rightarrow> Inl x
                 | Inr st' \<Rightarrow> main_rows L W A rest st'))"

definition main_run :: "pylib \<Rightarrow> world \<Rightarrow> args \<Rightarrow> row list \<Rightarrow> (exc \<times> run_state) + run_state" where
  \<comment> \<open>Lines 463 to 514, from the data frame that line 461 leaves\<close>
  "main_run L W A rows =
     (let st = \<lparr>df = rows, generated_count = 0, events = []\<rparr>
      in case main_rows L W A [start_row A ..< length rows] st of
           Inl x \<Rightarrow> Inl x
         | Inr st' \<Rightarrow>
             (case write_export st' (out_path A) of
                Inl e \<Rightarrow> Inl (e, st')
              | Inr st'' \<Rightarrow> Inr st''))"

section \<open>Sample records\<close>

definition blank_product :: product where
  \<comment> \<open>a product with every selection \<^verbatim>\<open>null\<close>\<close>
  "blank_product =
     \<lparr> product_id = None, title = None, vendor = None, handle = None,
       descriptionHtml = None, bag_style = None, bag_size = None, condition = None,
       receipt = None, accessories = None, stamp = None, hardware = None,
       dimensions = None, hermes_colour = None, hermes_material = None,
       hermes_hardware = None, size_style_description = None,
       hermes_construction = None \<rparr>"

definition birkin :: product where
  "birkin =
     blank_product
       \<lparr> product_id := Some ''gid://shopify/Product/1'',
         title := Some ''Birkin 30'',
         bag_style := Some (Metafield (Some ''[\"Birkin\"]'')) \<rparr>"

definition birkin_note :: product where
  \<comment> \<open>with a description of three words\<close>
  "birkin_note = birkin\<lparr>descriptionHtml := Some ''A lovely bag.''\<rparr>"

definition birkin_space :: product where
  \<comment> \<open>with a description that is one space: not empty, and no word\<close>
  "birkin_space = birkin\<lparr>descriptionHtml := Some '' ''\<rparr>"

definition three_colours :: product where
  \<comment> \<open>three colour sub-records, with the category values Black, Grey and Black\<close>
  "three_colours =
     birkin
       \<lparr> hermes_colour :=
           Some (References (Some (Connection (Some
             [Node (Some [\<lparr>field_key = Some ''black_grey'', field_value = Some ''Black''\<rparr>,
                          \<lparr>field_key = Some ''colour_code'', field_value = Some ''89''\<rparr>]),
              Node (Some [\<lparr>field_key = Some ''black_grey'', field_value = Some ''Grey''\<rparr>,
                          \<lparr>field_key = Some ''colour_description'',
                            field_value = Some ''A cool grey.''\<rparr>]),
              Node (Some [\<lparr>field_key = Some ''black_grey'', field_value = Some ''Black''\<rparr>,
                          \<lparr>field_key = Some ''colour_code'', field_value = Some ''89''\<rparr>])])))) \<rparr>"

definition empty_style :: product where
  \<comment> \<open>the bag style is the text of a list that holds one empty string\<close>
  "empty_style = blank_product\<lparr>bag_style := Some (Metafield (Some ''[\"\"]''))\<rparr>"

definition nan_colour :: product where
  \<comment> \<open>one colour sub-record, whose category value is the text \<^verbatim>\<open>nan\<close>\<close>
  "nan_colour =
     birkin
       \<lparr> hermes_colour :=
           Some (References (Some (Connection (Some
             [Node (Some [\<lparr>field_key = Some ''blue'', field_value = Some ''nan''\<rparr>])])))) \<rparr>"

definition nan_fields :: product where
  \<comment> \<open>the scalar attributes are empty or the text \<^verbatim>\<open>nan\<close>, in several spellings\<close>
  "nan_fields =
     blank_product
       \<lparr> bag_style := Some (Metafield (Some ''NaN'')),
         bag_size := Some (Metafield (Some ''nan'')),
         condition := Some (Metafield (Some [])),
         dimensions := Some (Metafield (Some '' nan '')) \<rparr>"

definition quota_world :: world where
  \<comment> \<open>the shop knows the product; the webhook answers 200 with an object that has the keys
      \<^verbatim>\<open>error\<close> and \<^verbatim>\<open>status\<close> and no \<^verbatim>\<open>description_html\<close>; the data frame stores every
      value\<close>
  "quota_world =
     \<lparr> shop_product = (\<lambda>gid. Inr (Some birkin)),
       webhook_post =
         (\<lambda>pl. Inr \<lparr> status_code = 200,
                      response_text = ''{\"error\": \"quota\", \"status\": 429}'',
                      response_json =
                        Inr (JObj [(''error'', JStr ''quota''), (''status'', JInt 429)]) \<rparr>),
       cell_refused = (\<lambda>c v. None) \<rparr>"

definition float_status_world :: world where
  \<comment> \<open>the same, with a status column of floats under pandas 3: it refuses a string\<close>
  "float_status_world =
     quota_world
       \<lparr> cell_refused :=
           (\<lambda>c v. case (c, v) of
                    (StatusColumn, JStr s) \<Rightarrow>
                      Some (Exc ''TypeError'' (''Invalid value for dtype float64: '' @ s) None)
                  | _ \<Rightarrow> None) \<rparr>"

definition default_args :: args where
  \<comment> \<open>the default arguments, for the export \<^verbatim>\<open>export.csv\<close>\<close>
  "default_args =
     \<lparr> start_row = 0, limit = None, save_every = 10, out_path = ''export_updated.csv'' \<rparr>"

definition two_rows :: "row list" where
  "two_rows =
     [\<lparr>row_id = JInt 1, row_body = JStr ''old text'', row_status = JStr []\<rparr>,
      \<lparr>row_id = JInt 2, row_body = JStr ''other text'', row_status = JStr []\<rparr>]"


definition legacy_markup :: string where
  \<comment> \<open>the word \<^verbatim>\<open>timeless\<close> and a space, 200 times: 1800 characters\<close>
  "legacy_markup = concat (replicate 200 ''timeless '')"

definition birkin_legacy :: product where
  "birkin_legacy = birkin\<lparr>descriptionHtml := Some legacy_markup\<rparr>"

definition spaced :: "string \<Rightarrow> nat \<Rightarrow> string" where
  \<comment> \<open>\<open>n + 1\<close> times the word \<open>w\<close>, with one space between two of them\<close>
  "spaced w n = concat (replicate n (w @ '' '')) @ w"

section \<open>The values the specification speaks of\<close>

text \<open>
  Two definitions that follow the words of the specification, to compare the loops of the
  program with. The first is the list of the values that are collected for a set of keys:
  the values, in the order in which the sub-records and their fields come, of the fields
  that have one of the keys and a value that is true. The second removes duplicates and
  keeps the first-seen order: a value stays exactly when no equal value came before it.
\<close>

definition values_in_order :: "string list \<Rightarrow> node list \<Rightarrow> string list" where
  "values_in_order keys ns =
     concat (map (\<lambda>node. map (\<lambda>f. the (field_value f))
                            (filter (\<lambda>f. str_truthy (field_value f)
                                          \<and> field_key f \<in> Some ` set keys)
                               (get_fields node))) ns)"

fun first_seen :: "'a list \<Rightarrow> 'a list \<Rightarrow> 'a list" where
  \<comment> \<open>the first argument holds the values that came before\<close>
  "first_seen before [] = []"
| "first_seen before (x # xs) =
     (if x \<in> set before then first_seen (x # before) xs
      else x # first_seen (x # before) xs)"

text \<open>
  For the dimensions, in the words of the specification: the elements of a decoded list
  that are dicts; whether the unit of such an element is absent, false or a string (any
  other unit cannot be lower-cased); the unit text, lower-cased and with the two spellings
  replaced, empty for a unit that is absent or false; and the pair that an element is
  turned into.
\<close>

definition dict_elements :: "json list \<Rightarrow> pydict list" where
  "dict_elements ds = concat (map (\<lambda>d. case d of JObj kv \<Rightarrow> [kv] | _ \<Rightarrow> []) ds)"

definition unit_readable :: "pydict \<Rightarrow> bool" where
  "unit_readable kv =
     (case dict_get kv ''unit'' of
        None \<Rightarrow> True
      | Some (JStr s) \<Rightarrow> True
      | Some x \<Rightarrow> \<not> py_truthy x)"

definition unit_text :: "pydict \<Rightarrow> string" where
  "unit_text kv =
     (case dict_get kv ''unit'' of
        Some (JStr s) \<Rightarrow>
          py_replace ''centimetres'' ''cm'' (py_replace ''centimeters'' ''cm'' (py_lower s))
      | _ \<Rightarrow> [])"

definition normalized_dimension :: "pylib \<Rightarrow> pydict \<Rightarrow> json" where
  "normalized_dimension L kv =
     JObj [(''value'',
              dimension_value L (case dict_get kv ''value'' of None \<Rightarrow> JNull | Some x \<Rightarrow> x)),
           (''unit'', JStr (unit_text kv))]"

text \<open>
  For the scalar attributes: the source value is absent, empty (also once the whitespace
  around it is stripped) or the text \<^verbatim>\<open>nan\<close> in any case.
\<close>

definition absent_or_nan :: "string option \<Rightarrow> bool" where
  "absent_or_nan v =
     (case v of
        None \<Rightarrow> True
      | Some s \<Rightarrow> py_strip s = [] \<or> py_lower (py_strip s) = ''nan'')"

definition specification_keys :: "string list" where
  \<comment> \<open>the keys that \<^verbatim>\<open>build_payload_from_product\<close> sets in \<^verbatim>\<open>specs\<close>\<close>
  "specification_keys =
     [''bag_style'', ''bag_size_cm'', ''condition'', ''stamp'', ''receipt'', ''accessories'',
      ''hardware'', ''dimensions'', ''hermes_colour'', ''hermes_colour_code'',
      ''hermes_material'']"

section \<open>Properties of the classifier\<close>

declare str_nat.simps [simp del]
declare py_replace.simps [simp del]

lemma should_process_product_cases:
  "should_process_product L p =
     (if \<not> str_truthy (get_value (bag_style p))
      then (False, None,
              ''SKIPPED: Bag Style is empty (non-Herm'' @ [CHR 0xE8]
                @ ''s handbag / manual description required)'')
      else case descriptionHtml p of
             None \<Rightarrow> (True, None, ''PROCESS: description empty'')
           | Some d \<Rightarrow>
               if d = [] then (True, None, ''PROCESS: description empty'')
               else
                 let wc = word_count (strip_html_to_text L d)
                 in if 0 < wc \<and> wc \<le> 50
                    then (True, Some d,
                            ''PROCESS: editor note detected ('' @ str_nat wc @ '' words)'')
                    else if length d > 1200 \<and> wc > 180 \<and> count_ai_phrases d \<ge> 1
                    then (True, None,
                            ''PROCESS: legacy AI detected (chars='' @ str_nat (length d)
                              @ '', words='' @ str_nat wc
                              @ '', phrases='' @ str_nat (count_ai_phrases d) @ '')'')
                    else (False, None,
                            ''SKIPPED: has description (chars='' @ str_nat (length d)
                              @ '', words='' @ str_nat wc
                              @ '', phrases='' @ str_nat (count_ai_phrases d) @ '')''))"
  by (simp add: should_process_product_def Let_def EDITORS_NOTE_MAX_WORDS_def
        MAX_CHAR_COUNT_def MAX_WORD_COUNT_def MIN_AI_PHRASES_def split: option.split)

lemma word_count_lovely: "word_count (strip_html_to_text python ''A lovely bag.'') = 3"
  by code_simp

lemma str_nat_3: "str_nat 3 = ''3''"
  by code_simp

lemma word_count_space: "word_count (strip_html_to_text python '' '') = 0"
  by code_simp

lemma count_ai_phrases_space: "count_ai_phrases '' '' = 0"
  by code_simp

text \<open>
  C1. A product whose bag-style value is absent or empty is skipped, with no preserved
  note, whatever its description is.
\<close>

theorem skip_when_bag_style_empty:
  assumes "get_value (bag_style p) = None \<or> get_value (bag_style p) = Some []"
  shows "should_process_product L (p\<lparr>descriptionHtml := d\<rparr>) =
           (False, None,
              ''SKIPPED: Bag Style is empty (non-Herm'' @ [CHR 0xE8]
                @ ''s handbag / manual description required)'')"
  using assms by (auto simp: should_process_product_cases str_truthy_def)

theorem skip_when_bag_style_empty_witness:
  "(get_value (bag_style blank_product) = None
      \<or> get_value (bag_style blank_product) = Some [])
   \<and> should_process_product python
         (blank_product\<lparr>descriptionHtml := Some ''A hand-written description.''\<rparr>) =
       (False, None,
          ''SKIPPED: Bag Style is empty (non-Herm'' @ [CHR 0xE8]
            @ ''s handbag / manual description required)'')"
  using skip_when_bag_style_empty
          [of blank_product python "Some ''A hand-written description.''"]
  by (simp add: blank_product_def get_value_def)

text \<open>
  C2. A product with a bag-style value that is not empty and a description that is not
  empty and has between 1 and 50 words once stripped is processed; the preserved note is
  the description as it stands, and the reason gives the word count.
\<close>

theorem editor_note_preserved:
  assumes "get_value (bag_style p) = Some b" and "b \<noteq> []"
    and "descriptionHtml p = Some d" and "d \<noteq> []"
    and "wc = word_count (strip_html_to_text L d)" and "1 \<le> wc" and "wc \<le> 50"
  shows "should_process_product L p =
           (True, Some d, ''PROCESS: editor note detected ('' @ str_nat wc @ '' words)'')"
  using assms by (simp add: should_process_product_cases str_truthy_def)

theorem editor_note_preserved_witness:
  "should_process_product python birkin_note =
     (True, Some ''A lovely bag.'', ''PROCESS: editor note detected (3 words)'')"
  using editor_note_preserved
          [of birkin_note "''[\"Birkin\"]''" "''A lovely bag.''" 3 python]
        word_count_lovely str_nat_3
  by (simp add: birkin_note_def birkin_def blank_product_def get_value_def)

text \<open>
  The word count of words that are one space apart, for the witness of the rule on long
  descriptions.
\<close>

lemma space_isspace: "py_isspace (CHR '' '')"
  by code_simp

lemma spaced_Suc: "spaced w (Suc n) = w @ CHR '' '' # spaced w n"
  by (simp add: spaced_def)

lemma spaced_0: "spaced w 0 = w"
  by (simp add: spaced_def)

lemma replicate_spaced: "concat (replicate (Suc n) (w @ '' '')) = spaced w n @ '' ''"
proof (induction n)
  case 0
  show ?case by (simp add: spaced_def)
next
  case (Suc n)
  have "concat (replicate (Suc (Suc n)) (w @ '' '')) = (w @ '' '') @ concat (replicate (Suc n) (w @ '' ''))"
    by simp
  also have "\<dots> = (w @ '' '') @ spaced w n @ '' ''" using Suc by simp
  also have "\<dots> = spaced w (Suc n) @ '' ''" by (simp add: spaced_Suc)
  finally show ?case .
qed

lemma dropWhile_word:
  assumes "w \<noteq> []" and "\<forall>c \<in> set w. \<not> py_isspace c"
  shows "dropWhile py_isspace (w @ xs) = w @ xs"
  using assms by (cases w) auto

lemma spaced_ends:
  assumes "w \<noteq> []" and "\<forall>c \<in> set w. \<not> py_isspace c"
  shows "spaced w n \<noteq> []" and "\<not> py_isspace (hd (spaced w n))" and "\<not> py_isspace (last (spaced w n))"
proof -
  show "spaced w n \<noteq> []" using assms by (simp add: spaced_def)
  show "\<not> py_isspace (hd (spaced w n))"
    using assms by (cases n) (auto simp: spaced_0 spaced_Suc hd_append)
  show "\<not> py_isspace (last (spaced w n))"
    using assms by (simp add: spaced_def)
qed

lemma dropWhile_hd: "xs \<noteq> [] \<Longrightarrow> \<not> P (hd xs) \<Longrightarrow> dropWhile P xs = xs"
  by (cases xs) auto

lemma py_strip_id:
  assumes "s \<noteq> []" and "\<not> py_isspace (hd s)" and "\<not> py_isspace (last s)"
  shows "py_strip s = s"
proof -
  have a: "dropWhile py_isspace s = s" using assms by (cases s) auto
  have "rev s \<noteq> []" "\<not> py_isspace (hd (rev s))" using assms by (simp_all add: hd_rev)
  then have b: "dropWhile py_isspace (rev s) = rev s" by (rule dropWhile_hd)
  show ?thesis by (simp add: py_strip_def a b)
qed

lemma py_strip_trailing_space:
  assumes "s \<noteq> []" and "\<not> py_isspace (hd s)" and "\<not> py_isspace (last s)"
  shows "py_strip (s @ '' '') = s"
proof -
  have a: "dropWhile py_isspace (s @ '' '') = s @ '' ''" using assms by (cases s) auto
  have "rev s \<noteq> []" "\<not> py_isspace (hd (rev s))" using assms by (simp_all add: hd_rev)
  then have b: "dropWhile py_isspace (rev s) = rev s" by (rule dropWhile_hd)
  show ?thesis using space_isspace by (simp add: py_strip_def a b)
qed

lemma re_sub_ws_word:
  "\<forall>c \<in> set w. \<not> py_isspace c \<Longrightarrow> re_sub_ws (w @ xs) = w @ re_sub_ws xs"
  by (induction w) auto

lemma re_sub_ws_spaced:
  assumes "w \<noteq> []" and "\<forall>c \<in> set w. \<not> py_isspace c"
  shows "re_sub_ws (spaced w n) = spaced w n"
proof (induction n)
  case 0
  show ?case using re_sub_ws_word [OF assms(2), of "[]"] by (simp add: spaced_0)
next
  case (Suc n)
  have d: "dropWhile py_isspace (spaced w n) = spaced w n"
    using spaced_ends [OF assms, of n] by (cases "spaced w n") auto
  show ?case
    using Suc d space_isspace by (simp add: spaced_Suc re_sub_ws_word [OF assms(2)])
qed

lemma re_split_from_word:
  "\<forall>c \<in> set w. \<not> py_isspace c \<Longrightarrow> re_split_from acc (w @ xs) = re_split_from (acc @ w) xs"
  by (induction w arbitrary: acc) auto

lemma re_split_ws_spaced:
  assumes "w \<noteq> []" and "\<forall>c \<in> set w. \<not> py_isspace c"
  shows "re_split_ws (spaced w n) = replicate (Suc n) w"
proof (induction n)
  case 0
  show ?case using re_split_from_word [OF assms(2), of "[]" "[]"] by (simp add: spaced_0 re_split_ws_def)
next
  case (Suc n)
  have d: "dropWhile py_isspace (spaced w n) = spaced w n"
    using spaced_ends [OF assms, of n] by (cases "spaced w n") auto
  have "re_split_from [] (spaced w (Suc n)) = re_split_from w (CHR '' '' # spaced w n)"
    using re_split_from_word [OF assms(2), of "[]"] by (simp add: spaced_Suc)
  also have "\<dots> = w # re_split_from [] (spaced w n)"
    using d space_isspace by simp
  finally show ?case using Suc by (simp add: re_split_ws_def)
qed

lemma word_count_spaced:
  assumes "w \<noteq> []" and "\<forall>c \<in> set w. \<not> py_isspace c"
  shows "word_count (spaced w n) = Suc n"
  using assms spaced_ends [OF assms, of n]
  by (simp add: word_count_def py_strip_id re_split_ws_spaced)

lemma word_count_repeated:
  assumes "w \<noteq> []" and "\<forall>c \<in> set w. \<not> py_isspace c"
  shows "word_count (strip_html_to_text python (concat (replicate (Suc n) (w @ '' '')))) = Suc n"
proof -
  have e: "spaced w n \<noteq> []" "\<not> py_isspace (hd (spaced w n))" "\<not> py_isspace (last (spaced w n))"
    using spaced_ends [OF assms] by blast+
  have "strip_html_to_text python (concat (replicate (Suc n) (w @ '' ''))) = spaced w n"
    unfolding replicate_spaced
    using e by (simp add: strip_html_to_text_def python_def tagless_text_def
          py_strip_trailing_space re_sub_ws_spaced [OF assms] py_strip_id)
  then show ?thesis using word_count_spaced [OF assms] by simp
qed

lemma timeless_word: "\<forall>c \<in> set ''timeless''. \<not> py_isspace c"
  by code_simp

lemma count_ai_phrases_repeated: "1 \<le> count_ai_phrases (concat (replicate (Suc n) ''timeless ''))"
proof -
  have l: "py_lower ''timeless '' = ''timeless ''" by code_simp
  have "py_lower (concat (replicate (Suc n) ''timeless '')) =
          ''timeless '' @ py_lower (concat (replicate n ''timeless ''))"
    using l by (simp add: py_lower_def)
  then have "str_in ''timeless'' (py_lower (concat (replicate (Suc n) ''timeless '')))"
    by simp
  moreover have "''timeless'' \<in> set AI_PHRASES" by (simp add: AI_PHRASES_def)
  ultimately have "filter (\<lambda>p. str_in p (py_lower (concat (replicate (Suc n) ''timeless '')))) AI_PHRASES \<noteq> []"
    by (auto simp: filter_empty_conv)
  then have "1 \<le> length (filter (\<lambda>p. str_in p (py_lower (concat (replicate (Suc n) ''timeless '')))) AI_PHRASES)"
    by (simp add: Suc_le_eq)
  then show ?thesis by (simp add: count_ai_phrases_def sum_list_triv)
qed

lemma legacy_markup_facts:
  "legacy_markup \<noteq> []"
  "length legacy_markup = 1800"
  "word_count (strip_html_to_text python legacy_markup) = 200"
  "1 \<le> count_ai_phrases legacy_markup"
proof -
  have n: "(200 :: nat) = Suc 199" by simp
  show "legacy_markup \<noteq> []"
    unfolding legacy_markup_def n by simp
  show "length legacy_markup = 1800"
    by (simp add: legacy_markup_def length_concat sum_list_replicate)
  show "word_count (strip_html_to_text python legacy_markup) = 200"
    unfolding legacy_markup_def n
    using word_count_repeated [of "''timeless''" 199] timeless_word by simp
  show "1 \<le> count_ai_phrases legacy_markup"
    unfolding legacy_markup_def n by (rule count_ai_phrases_repeated)
qed

text \<open>
  C3. For a product with a bag-style value that is not empty and a description that is
  not empty and whose stripped word count is outside 1 to 50: no note is preserved, and
  the product is processed exactly when the description has more than 1200 characters,
  more than 180 words and at least one signal phrase; otherwise it is skipped.
\<close>

theorem legacy_rule_decides:
  assumes "get_value (bag_style p) = Some b" and "b \<noteq> []"
    and "descriptionHtml p = Some d" and "d \<noteq> []"
    and "wc = word_count (strip_html_to_text L d)" and "\<not> (1 \<le> wc \<and> wc \<le> 50)"
  shows "fst (snd (should_process_product L p)) = None \<and>
         (fst (should_process_product L p) \<longleftrightarrow>
            1200 < length d \<and> 180 < wc \<and> 1 \<le> count_ai_phrases d)"
  using assms by (auto simp: should_process_product_cases str_truthy_def Let_def)

theorem legacy_rule_decides_witness:
  "fst (snd (should_process_product python birkin_legacy)) = None
   \<and> fst (should_process_product python birkin_legacy)
   \<and> fst (snd (should_process_product python birkin_space)) = None
   \<and> \<not> fst (should_process_product python birkin_space)"
  using legacy_rule_decides [of birkin_legacy "''[\"Birkin\"]''" legacy_markup 200 python]
        legacy_rule_decides [of birkin_space "''[\"Birkin\"]''" "'' ''" 0 python]
        legacy_markup_facts word_count_space
  by (simp add: birkin_legacy_def birkin_space_def birkin_def blank_product_def get_value_def)

section \<open>Properties of the signal phrases\<close>

lemma count_ai_phrases_le_length: "count_ai_phrases html \<le> length AI_PHRASES"
proof -
  have "count_ai_phrases html = length (filter (\<lambda>p. str_in p (py_lower html)) AI_PHRASES)"
    by (simp add: count_ai_phrases_def sum_list_triv)
  then show ?thesis by simp
qed

lemma length_AI_PHRASES: "length AI_PHRASES = 21"
  by (simp add: AI_PHRASES_def)

text \<open>
  C10. The list of signal phrases has 21 entries: \<^verbatim>\<open>symphonyindulge\<close>,
  \<^verbatim>\<open>elleganceunparalleled\<close> and \<^verbatim>\<open>craftsmanshipsophisticated\<close> are entries, and the six
  words they are made of are not. So the count is 0 for a markup that is only the word
  \<^verbatim>\<open>indulge\<close>, \<^verbatim>\<open>unparalleled\<close> or \<^verbatim>\<open>sophisticated\<close>, and it is at most 21 for every
  markup.
\<close>

theorem fused_phrases:
  "length AI_PHRASES = 21
   \<and> ''symphonyindulge'' \<in> set AI_PHRASES
   \<and> ''elleganceunparalleled'' \<in> set AI_PHRASES
   \<and> ''craftsmanshipsophisticated'' \<in> set AI_PHRASES
   \<and> set [''symphony'', ''indulge'', ''ellegance'', ''unparalleled'', ''craftsmanship'',
           ''sophisticated''] \<inter> set AI_PHRASES = {}
   \<and> count_ai_phrases ''indulge'' = 0
   \<and> count_ai_phrases ''unparalleled'' = 0
   \<and> count_ai_phrases ''sophisticated'' = 0
   \<and> (\<forall>html. count_ai_phrases html \<le> 21)"
proof -
  have entries:
    "''symphonyindulge'' \<in> set AI_PHRASES \<and> ''elleganceunparalleled'' \<in> set AI_PHRASES
     \<and> ''craftsmanshipsophisticated'' \<in> set AI_PHRASES
     \<and> set [''symphony'', ''indulge'', ''ellegance'', ''unparalleled'', ''craftsmanship'',
             ''sophisticated''] \<inter> set AI_PHRASES = {}"
    by (simp add: AI_PHRASES_def)
  have c1: "count_ai_phrases ''indulge'' = 0" by code_simp
  have c2: "count_ai_phrases ''unparalleled'' = 0" by code_simp
  have c3: "count_ai_phrases ''sophisticated'' = 0" by code_simp
  have bound: "\<forall>html. count_ai_phrases html \<le> 21"
    using count_ai_phrases_le_length length_AI_PHRASES by simp
  show ?thesis using entries c1 c2 c3 bound length_AI_PHRASES by blast
qed

section \<open>Properties of the extractor\<close>

lemma dict_get_dict_set:
  "dict_get (dict_set d k v) k' = (if k' = k then Some v else dict_get d k')"
  by (induction d) (auto simp: dict_get_def)

lemma dict_get_empty: "dict_get [] k = None"
  by (simp add: dict_get_def)

lemma get_specs_bag_style:
  "dict_get (specs_bag_style L p specs) k =
     (case parse_listish_string L (get_value (bag_style p)) of
        None \<Rightarrow> dict_get specs k
      | Some s \<Rightarrow> if s \<noteq> [] \<and> k = ''bag_style'' then Some (JStr s) else dict_get specs k)"
  by (simp add: specs_bag_style_def Let_def dict_get_dict_set str_truthy_def split: option.split)

lemma get_specs_bag_size:
  "dict_get (specs_bag_size L p specs) k =
     (if k = ''bag_size_cm'' \<and> get_value (bag_size p) \<notin> {None, Some [], Some ''nan'', Some ''NaN''}
      then (case py_float L (opt_json (get_value (bag_size p))) of
              None \<Rightarrow> dict_get specs k
            | Some f \<Rightarrow> (case py_int_of_float f of None \<Rightarrow> dict_get specs k | Some i \<Rightarrow> Some (JInt i)))
      else dict_get specs k)"
  by (auto simp add: specs_bag_size_def Let_def dict_get_dict_set split: option.split)

lemma get_specs_condition:
  "dict_get (specs_condition L p specs) k =
     (case parse_listish_string L (get_value (condition p)) of
        None \<Rightarrow> dict_get specs k
      | Some s \<Rightarrow> if s \<noteq> [] \<and> k = ''condition'' then Some (JStr s) else dict_get specs k)"
  by (simp add: specs_condition_def Let_def dict_get_dict_set str_truthy_def split: option.split)

lemma get_specs_verbatim:
  "dict_get (specs_verbatim p specs) k =
     (if k = ''hardware'' then Some (opt_json (get_value (hardware p)))
      else if k = ''accessories'' then Some (opt_json (get_value (accessories p)))
      else if k = ''receipt'' then Some (opt_json (get_value (receipt p)))
      else if k = ''stamp'' then Some (opt_json (get_value (stamp p)))
      else dict_get specs k)"
  by (simp add: specs_verbatim_def Let_def dict_get_dict_set)

lemma get_specs_dimensions:
  "dict_get (specs_dimensions L p specs) k =
     (case parse_dimensions_list_dimension L (get_value (dimensions p)) of
        None \<Rightarrow> dict_get specs k
      | Some d \<Rightarrow> if k = ''dimensions'' then Some d else dict_get specs k)"
  by (simp add: specs_dimensions_def Let_def dict_get_dict_set split: option.split)

lemma get_specs_colour:
  "dict_get (specs_colour p specs) k =
     (let cats = fst (colour_loop (get_nodes (hermes_colour p)));
          codes = fst (snd (colour_loop (get_nodes (hermes_colour p))))
      in if k = ''hermes_colour_code'' \<and> codes \<noteq> [] \<and> get_nodes (hermes_colour p) \<noteq> []
         then Some (JStr (py_join '' | '' (dict_fromkeys codes)))
         else if k = ''hermes_colour'' \<and> cats \<noteq> [] \<and> get_nodes (hermes_colour p) \<noteq> []
         then Some (JStr (py_join '' | '' (dict_fromkeys cats)))
         else dict_get specs k)"
  by (simp add: specs_colour_def Let_def dict_get_dict_set split: prod.split)

lemma get_specs_material:
  "dict_get (specs_material p specs) k =
     (let cats = fst (material_loop (get_nodes (hermes_material p)))
      in if k = ''hermes_material'' \<and> cats \<noteq> [] \<and> get_nodes (hermes_material p) \<noteq> []
         then Some (JStr (py_join '' | '' (dict_fromkeys cats)))
         else dict_get specs k)"
  by (simp add: specs_material_def Let_def dict_get_dict_set split: prod.split)

lemmas get_specs = build_specs_def get_specs_bag_style get_specs_bag_size get_specs_condition
  get_specs_verbatim get_specs_dimensions get_specs_colour get_specs_material dict_get_empty


lemma first_seen_cong: "set b1 = set b2 \<Longrightarrow> first_seen b1 xs = first_seen b2 xs"
proof (induction xs arbitrary: b1 b2)
  case Nil
  then show ?case by simp
next
  case (Cons x xs)
  have "first_seen (x # b1) xs = first_seen (x # b2) xs"
    using Cons.prems by (intro Cons.IH) simp
  then show ?case using Cons.prems by simp
qed

lemma fromkeys_from_first_seen:
  "set seen = set before \<Longrightarrow> fromkeys_from seen xs = seen @ first_seen before xs"
proof (induction xs arbitrary: seen before)
  case Nil
  then show ?case by simp
next
  case (Cons x xs)
  show ?case
  proof (cases "x \<in> set seen")
    case True
    have "fromkeys_from seen xs = seen @ first_seen (x # before) xs"
      using Cons.prems True by (intro Cons.IH) auto
    then show ?thesis using True Cons.prems by simp
  next
    case False
    have "fromkeys_from (seen @ [x]) xs = (seen @ [x]) @ first_seen (x # before) xs"
      using Cons.prems by (intro Cons.IH) auto
    then show ?thesis using False Cons.prems by simp
  qed
qed

lemma dict_fromkeys_first_seen: "dict_fromkeys xs = first_seen [] xs"
  by (simp add: dict_fromkeys_def fromkeys_from_first_seen)

lemma distinct_fromkeys_from: "distinct seen \<Longrightarrow> distinct (fromkeys_from seen xs)"
  by (induction xs arbitrary: seen) auto

lemma set_fromkeys_from: "set (fromkeys_from seen xs) = set seen \<union> set xs"
  by (induction xs arbitrary: seen) auto


lemma colour_field_step:
  "colour_field f (a, b, c) =
     (a @ map (\<lambda>f. the (field_value f))
            (filter (\<lambda>f. str_truthy (field_value f) \<and> field_key f \<in> Some ` set colour_keys) [f]),
      b @ map (\<lambda>f. the (field_value f))
            (filter (\<lambda>f. str_truthy (field_value f) \<and> field_key f \<in> Some ` set [''colour_code'']) [f]),
      c @ map (\<lambda>f. the (field_value f))
            (filter (\<lambda>f. str_truthy (field_value f) \<and> field_key f \<in> Some ` set [''colour_description'']) [f]))"
proof -
  have keys: "Some ''colour_code'' \<notin> Some ` set colour_keys"
    "Some ''colour_description'' \<notin> Some ` set colour_keys"
    by (simp_all add: colour_keys_def)
  show ?thesis
    using keys by (cases "field_value f") (auto simp: colour_field_def str_truthy_def)
qed

lemma fold_colour_field:
  "fold colour_field fs (a, b, c) =
     (a @ map (\<lambda>f. the (field_value f))
            (filter (\<lambda>f. str_truthy (field_value f) \<and> field_key f \<in> Some ` set colour_keys) fs),
      b @ map (\<lambda>f. the (field_value f))
            (filter (\<lambda>f. str_truthy (field_value f) \<and> field_key f \<in> Some ` set [''colour_code'']) fs),
      c @ map (\<lambda>f. the (field_value f))
            (filter (\<lambda>f. str_truthy (field_value f) \<and> field_key f \<in> Some ` set [''colour_description'']) fs))"
proof (induction fs arbitrary: a b c)
  case Nil
  then show ?case by simp
next
  case (Cons f fs)
  show ?case
    unfolding fold_simps colour_field_step Cons.IH by simp
qed

lemma colour_loop_values:
  "colour_loop ns =
     (values_in_order colour_keys ns, values_in_order [''colour_code''] ns,
      values_in_order [''colour_description''] ns)"
proof -
  have "fold (\<lambda>node. fold colour_field (get_fields node)) ns (a, b, c) =
          (a @ values_in_order colour_keys ns, b @ values_in_order [''colour_code''] ns,
           c @ values_in_order [''colour_description''] ns)" for a b c
    by (induction ns arbitrary: a b c) (simp_all add: values_in_order_def fold_colour_field)
  then show ?thesis by (simp add: colour_loop_def)
qed

lemma material_field_step:
  "material_field f (a, b) =
     (a @ map (\<lambda>f. the (field_value f))
            (filter (\<lambda>f. str_truthy (field_value f) \<and> field_key f \<in> Some ` set material_keys) [f]),
      b @ map (\<lambda>f. the (field_value f))
            (filter (\<lambda>f. str_truthy (field_value f) \<and> field_key f \<in> Some ` set [''material_description'']) [f]))"
proof -
  have keys: "Some ''material_description'' \<notin> Some ` set material_keys"
    by (simp add: material_keys_def)
  show ?thesis
    using keys by (cases "field_value f") (auto simp: material_field_def str_truthy_def)
qed

lemma fold_material_field:
  "fold material_field fs (a, b) =
     (a @ map (\<lambda>f. the (field_value f))
            (filter (\<lambda>f. str_truthy (field_value f) \<and> field_key f \<in> Some ` set material_keys) fs),
      b @ map (\<lambda>f. the (field_value f))
            (filter (\<lambda>f. str_truthy (field_value f) \<and> field_key f \<in> Some ` set [''material_description'']) fs))"
proof (induction fs arbitrary: a b)
  case Nil
  then show ?case by simp
next
  case (Cons f fs)
  show ?case
    unfolding fold_simps material_field_step Cons.IH by simp
qed

lemma material_loop_values:
  "material_loop ns =
     (values_in_order material_keys ns, values_in_order [''material_description''] ns)"
proof -
  have "fold (\<lambda>node. fold material_field (get_fields node)) ns (a, b) =
          (a @ values_in_order material_keys ns,
           b @ values_in_order [''material_description''] ns)" for a b
    by (induction ns arbitrary: a b) (simp_all add: values_in_order_def fold_material_field)
  then show ?thesis by (simp add: material_loop_def)
qed

lemma values_in_order_Nil: "values_in_order keys [] = []"
  by (simp add: values_in_order_def)

text \<open>
  C7. The colour categories, the colour codes and the material categories that reach
  \<^verbatim>\<open>specs\<close> are the values collected in field-iteration order, without duplicates, in
  first-seen order, joined with \<^verbatim>\<open>" | "\<close>; the key is not set when no value was collected.
  Black, Grey, Black join to \<^verbatim>\<open>Black | Grey\<close>.
\<close>

theorem joined_values_first_seen:
  "dict_get (specifications (build_payload_from_product L p note)) ''hermes_colour'' =
     (let cats = values_in_order colour_keys (get_nodes (hermes_colour p))
      in if cats = [] then None else Some (JStr (py_join '' | '' (dict_fromkeys cats))))
   \<and> dict_get (specifications (build_payload_from_product L p note)) ''hermes_colour_code'' =
     (let codes = values_in_order [''colour_code''] (get_nodes (hermes_colour p))
      in if codes = [] then None else Some (JStr (py_join '' | '' (dict_fromkeys codes))))
   \<and> dict_get (specifications (build_payload_from_product L p note)) ''hermes_material'' =
     (let cats = values_in_order material_keys (get_nodes (hermes_material p))
      in if cats = [] then None else Some (JStr (py_join '' | '' (dict_fromkeys cats))))
   \<and> (\<forall>xs :: string list.
         distinct (dict_fromkeys xs) \<and> set (dict_fromkeys xs) = set xs
         \<and> dict_fromkeys xs = first_seen [] xs)
   \<and> py_join '' | '' (dict_fromkeys [''Black'', ''Grey'', ''Black'']) = ''Black | Grey''"
proof -
  have ex: "py_join '' | '' (dict_fromkeys [''Black'', ''Grey'', ''Black'']) = ''Black | Grey''"
    by (simp add: dict_fromkeys_def)
  have dd: "\<forall>xs :: string list.
         distinct (dict_fromkeys xs) \<and> set (dict_fromkeys xs) = set xs
         \<and> dict_fromkeys xs = first_seen [] xs"
    by (simp add: dict_fromkeys_first_seen [symmetric])
       (simp add: dict_fromkeys_def distinct_fromkeys_from set_fromkeys_from)
  have a: "dict_get (build_specs L p) ''hermes_colour'' =
     (let cats = values_in_order colour_keys (get_nodes (hermes_colour p))
      in if cats = [] then None else Some (JStr (py_join '' | '' (dict_fromkeys cats))))"
    by (auto simp add: get_specs Let_def colour_loop_values values_in_order_Nil split: option.split)
  have b: "dict_get (build_specs L p) ''hermes_colour_code'' =
     (let codes = values_in_order [''colour_code''] (get_nodes (hermes_colour p))
      in if codes = [] then None else Some (JStr (py_join '' | '' (dict_fromkeys codes))))"
    by (auto simp add: get_specs Let_def colour_loop_values values_in_order_Nil split: option.split)
  have c: "dict_get (build_specs L p) ''hermes_material'' =
     (let cats = values_in_order material_keys (get_nodes (hermes_material p))
      in if cats = [] then None else Some (JStr (py_join '' | '' (dict_fromkeys cats))))"
    by (auto simp add: get_specs Let_def colour_loop_values material_loop_values values_in_order_Nil split: option.split)
  have sp: "specifications (build_payload_from_product L p note) = build_specs L p"
    by (simp add: build_payload_from_product_def)
  show ?thesis unfolding sp using a b c dd ex by blast
qed

theorem joined_values_first_seen_witness:
  "dict_get (specifications (build_payload_from_product python three_colours None))
     ''hermes_colour'' = Some (JStr ''Black | Grey'')
   \<and> dict_get (specifications (build_payload_from_product python three_colours None))
       ''hermes_colour_code'' = Some (JStr ''89'')
   \<and> dict_get (specifications (build_payload_from_product python three_colours None))
       ''hermes_material'' = None"
  using joined_values_first_seen [of python three_colours None]
  by (simp add: three_colours_def birkin_def blank_product_def get_nodes_def
        values_in_order_def get_fields_def str_truthy_def colour_keys_def dict_fromkeys_def)

lemma dict_get_None_iff: "dict_get d k = None \<longleftrightarrow> k \<notin> set (dict_keys d)"
  by (simp add: dict_get_def dict_keys_def map_of_eq_None_iff)

lemma specs_bag_style:
  "dict_get (build_specs L p) ''bag_style'' =
     (case parse_listish_string L (get_value (bag_style p)) of
        None \<Rightarrow> None | Some s \<Rightarrow> if s = [] then None else Some (JStr s))"
  by (simp add: get_specs Let_def split: option.split)

section \<open>Properties of the value normalizers\<close>

lemma parse_listish_string_absent:
  "parse_listish_string L None = None"
  "py_strip raw = [] \<or> py_lower (py_strip raw) = ''nan''
     \<Longrightarrow> parse_listish_string L (Some raw) = None"
  by (auto simp: parse_listish_string_def)

lemma parse_listish_string_plain:
  assumes "py_strip raw \<noteq> []" and "py_lower (py_strip raw) \<noteq> ''nan''"
    and "\<not> (py_startswith (py_strip raw) ''['' \<and> py_endswith (py_strip raw) '']'')"
  shows "parse_listish_string L (Some raw) = Some (py_strip raw)"
  using assms by (auto simp: parse_listish_string_def)

lemma parse_listish_string_decoded:
  assumes "py_strip raw \<noteq> []" and "py_lower (py_strip raw) \<noteq> ''nan''"
    and "py_startswith (py_strip raw) ''[''" and "py_endswith (py_strip raw) '']''"
    and "json_loads L (py_strip raw) = Some (JArr xs)"
  shows "parse_listish_string L (Some raw) =
           (case xs of
              [] \<Rightarrow> Some (py_strip raw)
            | first # rest \<Rightarrow>
                if first = JNull then None else Some (py_strip (py_str L first)))"
  using assms by (auto simp: parse_listish_string_def split: list.split)

lemma parse_listish_string_examples:
  "parse_listish_string python (Some ''[\"Birkin\"]'') = Some ''Birkin''"
  "parse_listish_string python (Some ''[\"A\",\"B\"]'') = Some ''A''"
  "parse_listish_string python (Some ''Plain'') = Some ''Plain''"
  "parse_listish_string python (Some []) = None"
  "parse_listish_string python (Some ''[null]'') = None"
  by code_simp+

text \<open>
  C4. The claim holds but for one case. For the text \<^verbatim>\<open>[]\<close>, which decodes as the empty
  list, the claim says null; the function goes past the \<^verbatim>\<open>if\<close> of line 103 to the last
  line and returns the text \<^verbatim>\<open>[]\<close> itself. The \<^verbatim>\<open>except\<close> branch beside it returns
  \<^verbatim>\<open>None\<close> when no part is left.
\<close>

theorem empty_list_text_returned:
  "json_loads python ''[]'' = Some (JArr [])
   \<and> parse_listish_string python (Some ''[]'') = Some ''[]''"
  by code_simp

section \<open>Classifier and extractor together\<close>

lemma json_decode_empty_string_list: "json_loads python ''[\"\"]'' = Some (JArr [JStr []])"
  by code_simp

lemma parse_listish_empty_string_list:
  assumes "json_loads L ''[\"\"]'' = Some (JArr [JStr []])"
  shows "parse_listish_string L (Some ''[\"\"]'') = Some []"
proof -
  have s: "py_strip ''[\"\"]'' = ''[\"\"]''" by code_simp
  have "py_lower ''[\"\"]'' \<noteq> ''nan''" by code_simp
  moreover have "py_startswith ''[\"\"]'' ''[''" "py_endswith ''[\"\"]'' '']''" by code_simp+
  moreover have "py_strip [] = []" by code_simp
  ultimately show ?thesis
    using assms by (simp add: parse_listish_string_def s py_str_def)
qed

text \<open>
  C9. There is a product that the classifier processes and whose specifications have no
  \<^verbatim>\<open>bag_style\<close> key: the one whose bag-style value is the text \<^verbatim>\<open>[""]\<close>, which is a true
  value for the classifier and which \<^verbatim>\<open>parse_listish_string\<close> turns into the empty
  string, given that \<^verbatim>\<open>json.loads\<close> decodes that text as the list of one empty string.
\<close>

theorem processed_without_bag_style:
  assumes "json_loads L ''[\"\"]'' = Some (JArr [JStr []])"
  shows "\<exists>p. get_value (bag_style p) = Some ''[\"\"]''
           \<and> fst (should_process_product L p)
           \<and> ''bag_style'' \<notin> set (dict_keys (specifications
                 (build_payload_from_product L p (fst (snd (should_process_product L p))))))"
proof -
  have v: "get_value (bag_style empty_style) = Some ''[\"\"]''"
    by (simp add: empty_style_def blank_product_def get_value_def)
  have d: "descriptionHtml empty_style = None"
    by (simp add: empty_style_def blank_product_def)
  have "fst (should_process_product L empty_style)"
    using v d by (simp add: should_process_product_cases str_truthy_def)
  moreover have "dict_get (build_specs L empty_style) ''bag_style'' = None"
    using v parse_listish_empty_string_list [OF assms] by (simp add: specs_bag_style)
  ultimately show ?thesis
    using v by (intro exI [of _ empty_style])
      (simp add: dict_get_None_iff [symmetric] build_payload_from_product_def)
qed

theorem processed_without_bag_style_witness:
  "json_loads python ''[\"\"]'' = Some (JArr [JStr []])
   \<and> (\<exists>p. get_value (bag_style p) = Some ''[\"\"]''
           \<and> fst (should_process_product python p)
           \<and> ''bag_style'' \<notin> set (dict_keys (specifications
                 (build_payload_from_product python p
                    (fst (snd (should_process_product python p)))))))"
  using processed_without_bag_style [of python] json_decode_empty_string_list by simp

section \<open>Properties of the dimension normalizer\<close>

lemma dimension_value_facts:
  "py_float L v = Some (Finite (of_int q)) \<Longrightarrow> dimension_value L v = JInt q"
  "py_float L v = None \<Longrightarrow> dimension_value L v = v"
  "py_float L v = Some f \<Longrightarrow> f \<in> {PosInf, NegInf, NaN} \<Longrightarrow> dimension_value L v = JFloat f"
  by (auto simp: dimension_value_def py_int_of_float_def)

lemma dimension_unit_facts:
  "dimension_unit (Some (JStr u)) =
     Some (py_replace ''centimetres'' ''cm'' (py_replace ''centimeters'' ''cm'' (py_lower u)))"
  "dimension_unit None = Some []"
proof -
  have e: "py_replace ''centimetres'' ''cm'' (py_replace ''centimeters'' ''cm'' (py_lower [])) = []"
    by code_simp
  show "dimension_unit (Some (JStr u)) =
     Some (py_replace ''centimetres'' ''cm'' (py_replace ''centimeters'' ''cm'' (py_lower u)))"
    using e by (cases "u = []") (simp_all add: dimension_unit_def)
  show "dimension_unit None = Some []"
    using e by (simp add: dimension_unit_def)
qed

lemma dimension_unit_readable:
  "dimension_unit (dict_get kv ''unit'') =
     (if unit_readable kv then Some (unit_text kv) else None)"
proof (cases "dict_get kv ''unit''")
  case None
  then show ?thesis
    by (simp add: dimension_unit_facts unit_readable_def unit_text_def)
next
  case (Some x)
  have e: "py_replace ''centimetres'' ''cm'' (py_replace ''centimeters'' ''cm'' (py_lower [])) = []"
    by code_simp
  show ?thesis
  proof (cases x)
    case (JStr u)
    then show ?thesis
      using Some by (simp add: dimension_unit_facts unit_readable_def unit_text_def)
  qed (use Some e in \<open>simp_all add: dimension_unit_def unit_readable_def unit_text_def\<close>)
qed

lemma dimensions_loop_append:
  "dimensions_loop L ds out =
     (if \<forall>kv \<in> set (dict_elements ds). unit_readable kv
      then Some (out @ map (normalized_dimension L) (dict_elements ds))
      else None)"
proof (induction ds arbitrary: out)
  case Nil
  then show ?case by (simp add: dict_elements_def)
next
  case (Cons d ds)
  show ?case
  proof (cases d)
    case (JObj kv)
    then show ?thesis
      by (auto simp: Cons.IH dict_elements_def dimension_unit_readable
            normalized_dimension_def)
  qed (simp_all add: Cons.IH dict_elements_def)
qed

lemma dimensions_unit_number:
  "parse_dimensions_list_dimension python (Some ''[{\"unit\":5,\"value\":1}]'')
     = Some (JStr ''[{\"unit\":5,\"value\":1}]'')"
  by code_simp

lemma dimensions_example_text: "py_strip ''[{\"value\":\"24\",\"unit\":\"Centimeters\"}]'' = ''[{\"value\":\"24\",\"unit\":\"Centimeters\"}]''
  \<and> py_lower ''[{\"value\":\"24\",\"unit\":\"Centimeters\"}]'' \<noteq> ''nan''"
  by code_simp

lemma dimensions_example_decoded: "json_loads python ''[{\"value\":\"24\",\"unit\":\"Centimeters\"}]'' =
   Some (JArr [JObj [(''value'', JStr ''24''), (''unit'', JStr ''Centimeters'')]])"
  by code_simp

lemma dimensions_example_entry: "normalized_dimension python [(''value'', JStr ''24''), (''unit'', JStr ''Centimeters'')]
   = JObj [(''value'', JInt 24), (''unit'', JStr ''cm'')]"
  by code_simp

lemma dimensions_example_unit: "unit_readable [(''value'', JStr ''24''), (''unit'', JStr ''Centimeters'')]"
  by code_simp

text \<open>
  C5, as the claim states it, fails where it says that the raw string comes back unmodified:
  the function returns the string stripped of the whitespace around it. Here the text
  \<^verbatim>\<open>30 cm\<close> with a space after it does not decode, and the result is \<^verbatim>\<open>30 cm\<close> without
  the space.
\<close>

theorem dimensions_text_stripped:
  "json_loads python (py_strip ''30 cm '') = None
   \<and> parse_dimensions_list_dimension python (Some ''30 cm '') = Some (JStr ''30 cm'')
   \<and> parse_dimensions_list_dimension python (Some ''30 cm '') \<noteq> Some (JStr ''30 cm '')"
  by code_simp

text \<open>
  A magnitude with a fraction is not kept as a float: \<^verbatim>\<open>int(float(val))\<close> succeeds on it and
  drops the fraction, so the \<^verbatim>\<open>float(val)\<close> of line 139 is reached for infinities and
  not-a-number only.
\<close>

lemma dimensions_fraction_dropped: "parse_dimensions_list_dimension python (Some ''[{\"value\":\"24.5\",\"unit\":\"cm\"}]'')
     = Some (JArr [JObj [(''value'', JInt 24), (''unit'', JStr ''cm'')]])"
  by code_simp
text \<open>
  C5, amended. For a raw value that is not empty, nor empty once stripped, nor \<^verbatim>\<open>nan\<close>:
  when the stripped string decodes as a list that has dict elements, all with a unit that
  is absent, false or a string, the result is the list of the normalized dict elements, in
  order; in every other case (the string does not decode, it decodes as something else
  than a list, the list has no dict element, a unit cannot be lower-cased) the result is
  the stripped string. In a normalized element the magnitude is an integer when
  \<^verbatim>\<open>float\<close> reads it as a whole number, the float when \<^verbatim>\<open>float\<close> reads it as an infinity
  or not-a-number, and the raw value when \<^verbatim>\<open>float\<close> rejects it; the unit is lower-cased,
  with \<^verbatim>\<open>centimeters\<close> and \<^verbatim>\<open>centimetres\<close> replaced by \<^verbatim>\<open>cm\<close>, and empty when absent.
\<close>

theorem dimensions_normalized:
  assumes "raw \<noteq> []" and "s = py_strip raw" and "s \<noteq> []" and "py_lower s \<noteq> ''nan''"
  shows
    "parse_dimensions_list_dimension L (Some raw) =
       (case json_loads L s of
          Some (JArr ds) \<Rightarrow>
            if dict_elements ds \<noteq> [] \<and> (\<forall>kv \<in> set (dict_elements ds). unit_readable kv)
            then Some (JArr (map (normalized_dimension L) (dict_elements ds)))
            else Some (JStr s)
        | _ \<Rightarrow> Some (JStr s))
     \<and> (\<forall>v q. py_float L v = Some (Finite (of_int q)) \<longrightarrow> dimension_value L v = JInt q)
     \<and> (\<forall>v. py_float L v = None \<longrightarrow> dimension_value L v = v)
     \<and> (\<forall>v f. py_float L v = Some f \<and> f \<in> {PosInf, NegInf, NaN}
            \<longrightarrow> dimension_value L v = JFloat f)
     \<and> (\<forall>u. dimension_unit (Some (JStr u)) =
            Some (py_replace ''centimetres'' ''cm''
                   (py_replace ''centimeters'' ''cm'' (py_lower u))))
     \<and> dimension_unit None = Some []"
proof -
  have main: "parse_dimensions_list_dimension L (Some raw) =
       (case json_loads L s of
          Some (JArr ds) \<Rightarrow>
            if dict_elements ds \<noteq> [] \<and> (\<forall>kv \<in> set (dict_elements ds). unit_readable kv)
            then Some (JArr (map (normalized_dimension L) (dict_elements ds)))
            else Some (JStr s)
        | _ \<Rightarrow> Some (JStr s))"
    using assms
    by (auto simp: parse_dimensions_list_dimension_def str_truthy_def Let_def
          dimensions_loop_append split: option.split json.split)
  show ?thesis
    using main dimension_value_facts [of L] dimension_unit_facts by blast
qed

theorem dimensions_normalized_witness:
  "parse_dimensions_list_dimension python (Some ''[{\"value\":\"24\",\"unit\":\"Centimeters\"}]'')
     = Some (JArr [JObj [(''value'', JInt 24), (''unit'', JStr ''cm'')]])"
  using dimensions_normalized [of "''[{\"value\":\"24\",\"unit\":\"Centimeters\"}]''"
              "''[{\"value\":\"24\",\"unit\":\"Centimeters\"}]''" python]
        dimensions_example_text dimensions_example_decoded dimensions_example_entry
        dimensions_example_unit
  by (simp add: dict_elements_def)

section \<open>The keys of the specifications\<close>

lemma py_strip_Nil: "py_strip [] = []"
  by (simp add: py_strip_def)

lemma parse_listish_string_absent_or_nan:
  "absent_or_nan v \<Longrightarrow> parse_listish_string L v = None"
  by (cases v) (auto simp: absent_or_nan_def parse_listish_string_def)

lemma parse_dimensions_absent_or_nan:
  "absent_or_nan v \<Longrightarrow> parse_dimensions_list_dimension L v = None"
  by (cases v) (auto simp: absent_or_nan_def parse_dimensions_list_dimension_def str_truthy_def Let_def)

lemma specs_verbatim_keys:
  "dict_get (build_specs L p) ''stamp'' = Some (opt_json (get_value (stamp p)))"
  "dict_get (build_specs L p) ''receipt'' = Some (opt_json (get_value (receipt p)))"
  "dict_get (build_specs L p) ''accessories'' = Some (opt_json (get_value (accessories p)))"
  "dict_get (build_specs L p) ''hardware'' = Some (opt_json (get_value (hardware p)))"
  by (simp_all add: get_specs Let_def split: option.split)

lemma specs_condition:
  "dict_get (build_specs L p) ''condition'' =
     (case parse_listish_string L (get_value (condition p)) of
        None \<Rightarrow> None | Some s \<Rightarrow> if s = [] then None else Some (JStr s))"
  by (simp add: get_specs Let_def split: option.split)

lemma specs_dimensions:
  "dict_get (build_specs L p) ''dimensions'' =
     parse_dimensions_list_dimension L (get_value (dimensions p))"
  by (simp add: get_specs Let_def split: option.split)

lemma specs_bag_size_cm:
  "dict_get (build_specs L p) ''bag_size_cm'' =
     (if get_value (bag_size p) \<in> {None, Some [], Some ''nan'', Some ''NaN''} then None
      else case py_float L (opt_json (get_value (bag_size p))) of
             None \<Rightarrow> None
           | Some f \<Rightarrow> map_option JInt (py_int_of_float f))"
  by (auto simp add: get_specs Let_def split: option.split)

lemma specs_hermes:
  "dict_get (build_specs L p) ''hermes_colour'' =
     (let cats = values_in_order colour_keys (get_nodes (hermes_colour p))
      in if cats = [] then None else Some (JStr (py_join '' | '' (dict_fromkeys cats))))"
  "dict_get (build_specs L p) ''hermes_colour_code'' =
     (let codes = values_in_order [''colour_code''] (get_nodes (hermes_colour p))
      in if codes = [] then None else Some (JStr (py_join '' | '' (dict_fromkeys codes))))"
  "dict_get (build_specs L p) ''hermes_material'' =
     (let cats = values_in_order material_keys (get_nodes (hermes_material p))
      in if cats = [] then None else Some (JStr (py_join '' | '' (dict_fromkeys cats))))"
  by (auto simp add: get_specs Let_def colour_loop_values material_loop_values values_in_order_Nil split: option.split)

lemma specs_other_key:
  "k \<notin> set specification_keys \<Longrightarrow> dict_get (build_specs L p) k = None"
  by (auto simp add: specification_keys_def get_specs Let_def split: option.split)

lemma specs_keys_subset: "set (dict_keys (build_specs L p)) \<subseteq> set specification_keys"
  using specs_other_key [of _ L p] by (auto simp: dict_get_None_iff)

lemma nan_fields_absent:
  "absent_or_nan (get_value (bag_style nan_fields))"
  "absent_or_nan (get_value (condition nan_fields))"
  "absent_or_nan (get_value (dimensions nan_fields))"
  "get_value (bag_size nan_fields) = Some ''nan''"
  by code_simp+

text \<open>
  C6, as the claim states it, fails for the keys that come from referenced sub-records: a
  colour category whose value is the text \<^verbatim>\<open>nan\<close> is a true value for line 318, and the
  key \<^verbatim>\<open>hermes_colour\<close> is set to it. The test for \<^verbatim>\<open>nan\<close> is made for the scalar
  attributes only.
\<close>

theorem nan_colour_kept:
  "values_in_order colour_keys (get_nodes (hermes_colour nan_colour)) = [''nan'']
   \<and> dict_get (specifications (build_payload_from_product python nan_colour None))
        ''hermes_colour'' = Some (JStr ''nan'')"
  by code_simp
text \<open>
  C6, amended. The keys \<^verbatim>\<open>stamp\<close>, \<^verbatim>\<open>receipt\<close>, \<^verbatim>\<open>accessories\<close> and \<^verbatim>\<open>hardware\<close> are always
  set, to the value of the product or to \<^verbatim>\<open>None\<close>. The keys \<^verbatim>\<open>bag_style\<close>, \<^verbatim>\<open>condition\<close>
  and \<^verbatim>\<open>dimensions\<close> are not set when the source value is absent, empty or the text
  \<^verbatim>\<open>nan\<close>; \<^verbatim>\<open>bag_size_cm\<close> is not set when the source value is absent, empty, \<^verbatim>\<open>nan\<close> or
  \<^verbatim>\<open>NaN\<close>, or when \<^verbatim>\<open>float\<close> rejects it or reads it as not-a-number; \<^verbatim>\<open>hermes_colour\<close>,
  \<^verbatim>\<open>hermes_colour_code\<close> and \<^verbatim>\<open>hermes_material\<close> are not set when the sub-records hold no
  value for them that is not empty. No other key is ever set.
\<close>

theorem specifications_keys:
  "(let specs = specifications (build_payload_from_product L p note) in
    dict_get specs ''stamp'' = Some (opt_json (get_value (stamp p)))
    \<and> dict_get specs ''receipt'' = Some (opt_json (get_value (receipt p)))
    \<and> dict_get specs ''accessories'' = Some (opt_json (get_value (accessories p)))
    \<and> dict_get specs ''hardware'' = Some (opt_json (get_value (hardware p)))
    \<and> (absent_or_nan (get_value (bag_style p)) \<longrightarrow> ''bag_style'' \<notin> set (dict_keys specs))
    \<and> (absent_or_nan (get_value (condition p)) \<longrightarrow> ''condition'' \<notin> set (dict_keys specs))
    \<and> (absent_or_nan (get_value (dimensions p)) \<longrightarrow> ''dimensions'' \<notin> set (dict_keys specs))
    \<and> (get_value (bag_size p) \<in> {None, Some [], Some ''nan'', Some ''NaN''}
          \<or> py_float L (opt_json (get_value (bag_size p))) = None
          \<or> py_float L (opt_json (get_value (bag_size p))) = Some NaN
        \<longrightarrow> ''bag_size_cm'' \<notin> set (dict_keys specs))
    \<and> (values_in_order colour_keys (get_nodes (hermes_colour p)) = []
        \<longrightarrow> ''hermes_colour'' \<notin> set (dict_keys specs))
    \<and> (values_in_order [''colour_code''] (get_nodes (hermes_colour p)) = []
        \<longrightarrow> ''hermes_colour_code'' \<notin> set (dict_keys specs))
    \<and> (values_in_order material_keys (get_nodes (hermes_material p)) = []
        \<longrightarrow> ''hermes_material'' \<notin> set (dict_keys specs))
    \<and> set (dict_keys specs) \<subseteq> set specification_keys)"
proof -
  have sp: "specifications (build_payload_from_product L p note) = build_specs L p"
    by (simp add: build_payload_from_product_def)
  have size: "get_value (bag_size p) \<in> {None, Some [], Some ''nan'', Some ''NaN''}
          \<or> py_float L (opt_json (get_value (bag_size p))) = None
          \<or> py_float L (opt_json (get_value (bag_size p))) = Some NaN
        \<longrightarrow> dict_get (build_specs L p) ''bag_size_cm'' = None"
    by (auto simp: specs_bag_size_cm py_int_of_float_def)
  show ?thesis
    unfolding sp Let_def dict_get_None_iff [symmetric]
    using size specs_keys_subset [of L p]
    by (simp add: specs_verbatim_keys specs_bag_style specs_condition specs_dimensions
          specs_hermes parse_listish_string_absent_or_nan parse_dimensions_absent_or_nan
          dict_get_None_iff)
qed

theorem specifications_keys_witness:
  "dict_get (specifications (build_payload_from_product python nan_fields None)) ''stamp''
     = Some JNull
   \<and> set [''bag_style'', ''bag_size_cm'', ''condition'', ''dimensions'', ''hermes_colour'',
           ''hermes_colour_code'', ''hermes_material'']
       \<inter> set (dict_keys (specifications (build_payload_from_product python nan_fields None)))
       = {}"
  using specifications_keys [of python nan_fields None] nan_fields_absent
  by (simp add: Let_def nan_fields_def blank_product_def get_value_def opt_json_def
        get_nodes_def values_in_order_Nil)

section \<open>Properties of the run\<close>












text \<open>
  With a status column that refuses strings the handler raises on line 510: the exception
  that leaves is that one, the \<^verbatim>\<open>RuntimeError\<close> is its context, and the status is not
  written.
\<close>

lemma float_status_run:
  "(case main_rows python float_status_world default_args [0, 1]
           \<lparr>df = two_rows, generated_count = 0, events = []\<rparr> of
      Inl (e, st') \<Rightarrow>
        e = Exc ''TypeError''
              ''Invalid value for dtype float64: FAILED: Webhook missing description_html (keys=['error', 'status'])''
              (Some (Exc ''RuntimeError''
                 ''Webhook missing description_html (keys=['error', 'status'])'' None))
        \<and> row_status (df st' ! 0) = JStr []
    | Inr st' \<Rightarrow> False)"
  by code_simp

end
